theory Spec2Isabelle
  imports Complex_Main "HOL-Library.Sublist" "HOL-Library.Multiset"
begin

section \<open>Strings of the JavaScript runtime\<close>

text \<open>
  Strings are lists of 8-bit characters: the code units \<open>U+0000\<close> to \<open>U+00FF\<close> of a
  JavaScript string. On these, \<open>toLowerCase\<close> maps the capital letters, \<open>A\<close> to \<open>Z\<close>
  and \<open>U+00C0\<close> to \<open>U+00DE\<close> without the sign \<open>U+00D7\<close>, to the small letters 32
  above them, and leaves every other code unit alone. \<open>str_includes\<close> is the
  contiguous-substring test of \<open>String.prototype.includes\<close>. \<open>trim\<close> is
  \<open>String.prototype.trim\<close>, and the validator's \<open>trim\<close>, which remove the leading and
  trailing white space: among these code units the tab, the line feed, the vertical
  tab, the form feed, the carriage return, the space and the no-break space \<open>U+00A0\<close>.
  \<open>join\<close> is \<open>Array.prototype.join\<close>.
\<close>

definition toLowerCase_char :: "char \<Rightarrow> char" where
  "toLowerCase_char c =
     (let n = (of_char c :: nat) in
      if (65 \<le> n \<and> n \<le> 90) \<or> (192 \<le> n \<and> n \<le> 222 \<and> n \<noteq> 215)
      then char_of (n + 32) else c)"

definition toLowerCase :: "string \<Rightarrow> string" where
  "toLowerCase s = map toLowerCase_char s"

fun str_includes :: "string \<Rightarrow> string \<Rightarrow> bool" where
  "str_includes [] t = (t = [])"
| "str_includes (c # s) t = (prefix t (c # s) \<or> str_includes s t)"

definition is_space :: "char \<Rightarrow> bool" where
  "is_space c =
     (c \<in> set [CHR 0x09, CHR 0x0A, CHR 0x0B, CHR 0x0C, CHR 0x0D, CHR '' '', CHR 0xA0])"

definition trim :: "string \<Rightarrow> string" where
  "trim s = rev (dropWhile is_space (rev (dropWhile is_space s)))"

fun join :: "string \<Rightarrow> string list \<Rightarrow> string" where
  "join sep [] = []"
| "join sep [x] = x"
| "join sep (x # y # ys) = x @ sep @ join sep (y # ys)"

text \<open>
  The notion the specification uses: a keyword is a case-insensitive substring of a text
  when some contiguous part of the text equals the keyword up to the case of letters.
\<close>

definition ci_substring :: "string \<Rightarrow> string \<Rightarrow> bool" where
  "ci_substring kw text =
     (\<exists>pre mid post. text = pre @ mid @ post \<and> toLowerCase mid = toLowerCase kw)"

section \<open>The IVOR persona (\<open>services/ivor.persona.ts\<close>)\<close>

record CommunityResponse =
  message :: string
  context_tag :: string
  resources :: "string list"

text \<open>
  \<open>communityKnowledge\<close> is a JavaScript \<open>Map\<close>, iterated in insertion order: an
  association list in the order of the \<open>set\<close> calls of \<open>initializeCommunityKnowledge\<close>.
\<close>

definition communityKnowledge :: "(string \<times> CommunityResponse) list" where
  "communityKnowledge =
   [(''mental health'',
     \<lparr>message = ''I understand how important mental health is, especially as a QTIPOC person in the UK. You might find support through the NHS IAPT services, or community-specific support like Black Thrive BQC in South London. Many of us find strength in community connection too.'',
      context_tag = ''mental_health_support'',
      resources = [''NHS IAPT'', ''Black Thrive BQC'', ''Mind'', ''LGBT Foundation'']\<rparr>),
    (''housing'',
     \<lparr>message = ''Housing struggles are unfortunately common in our community. If you'' @ [CHR 0x27] @ ''re facing homelessness or housing insecurity, The Outside Project offers LGBTQ+ specific housing support. Shelter and your local council'' @ [CHR 0x27] @ ''s housing team can also help with your rights and options.'',
      context_tag = ''housing_support'',
      resources = [''Outside Project'', ''Shelter'', ''Local Council Housing'', ''Crisis'']\<rparr>),
    (''benefits'',
     \<lparr>message = ''Navigating the benefits system can be overwhelming. Citizens Advice offers free, confidential support with benefit claims and appeals. If you'' @ [CHR 0x27] @ ''re LGBTQ+ and facing discrimination, the LGBT Foundation also has welfare rights advice.'',
      context_tag = ''financial_support'',
      resources = [''Citizens Advice'', ''LGBT Foundation'', ''Turn2us'', ''StepChange'']\<rparr>),
    (''coming out'',
     \<lparr>message = ''Coming out is a deeply personal journey, and there'' @ [CHR 0x27] @ ''s no '' @ [CHR 0x27] @ ''right'' @ [CHR 0x27] @ '' way or timeline. The LGBT Foundation has great resources, and locally, organizations like Gendered Intelligence (for trans experiences) offer community support. You know yourself best.'',
      context_tag = ''identity_support'',
      resources = [''LGBT Foundation'', ''Gendered Intelligence'', ''Stonewall'', ''Local LGBT+ groups'']\<rparr>),
    (''discrimination'',
     \<lparr>message = ''I'' @ [CHR 0x27] @ ''m sorry you'' @ [CHR 0x27] @ ''re experiencing discrimination. You have rights under the Equality Act 2010. ACAS offers free employment advice, and the Equality and Human Rights Commission can guide you on legal options. Remember, you deserve to be treated with dignity.'',
      context_tag = ''legal_rights'',
      resources = [''ACAS'', ''EHRC'', ''LGBT Foundation'', ''Citizens Advice'']\<rparr>),
    (''healthcare'',
     \<lparr>message = ''Accessing affirming healthcare can be challenging. If you'' @ [CHR 0x27] @ ''re trans, the NHS Gender Identity Clinics have long waits, but CliniQ offers community-specific sexual health services. For general healthcare concerns, don'' @ [CHR 0x27] @ ''t be afraid to advocate for yourself with your GP.'',
      context_tag = ''healthcare_access'',
      resources = [''CliniQ'', ''NHS'', ''Terrence Higgins Trust'', ''Local sexual health clinics'']\<rparr>)]"

definition fallbackResponses :: "string list" where
  "fallbackResponses =
   [''I'' @ [CHR 0x27] @ ''m here with you, even when technology isn'' @ [CHR 0x27] @ ''t working perfectly. The BLKOUT community is built on resilience and mutual support. What you'' @ [CHR 0x27] @ ''re feeling and experiencing matters.'',
    ''Technology might be giving me some challenges right now, but our community connection is stronger than any technical difficulty. I'' @ [CHR 0x27] @ ''m still here to listen and support you.'',
    ''I want to support you properly, but I'' @ [CHR 0x27] @ ''m having some technical difficulties at the moment. What I can tell you is that you'' @ [CHR 0x27] @ ''re part of a powerful QTIPOC community that cares about you.'',
    ''While I work through some technical issues, please know that your voice and experiences are valued in our community. Is there something specific I can help you with when I'' @ [CHR 0x27] @ ''m back to full capacity?'',
    ''I'' @ [CHR 0x27] @ ''m experiencing some connectivity issues, but I don'' @ [CHR 0x27] @ ''t want to leave you without support. The BLKOUT community has many resources and people who care. Your wellbeing matters to all of us.'']"

text \<open>
  The \<open>for ... of\<close> loop over the map: the first topic that the lowered message
  includes decides; \<open>None\<close> when the loop runs to its end.
\<close>

fun scanKnowledge :: "(string \<times> CommunityResponse) list \<Rightarrow> string \<Rightarrow> string option" where
  "scanKnowledge [] lowerMessage = None"
| "scanKnowledge ((topic, response) # rest) lowerMessage =
     (if str_includes lowerMessage topic then Some (message response)
      else scanKnowledge rest lowerMessage)"

text \<open>
  \<open>Math.random()\<close> yields a number \<open>u\<close> with \<open>0 \<le> u < 1\<close>: the type of its results.
  What it yields in a call is an input of the model.
\<close>

typedef random_number = "{u :: real. 0 \<le> u \<and> u < 1}"
  by (rule exI[of _ 0]) simp

definition getFallbackResponse :: "random_number \<Rightarrow> string \<Rightarrow> string" where
  "getFallbackResponse u userMessage =
     (let lowerMessage = toLowerCase userMessage in
      case scanKnowledge communityKnowledge lowerMessage of
        Some m \<Rightarrow> m
      | None \<Rightarrow>
          fallbackResponses ! nat \<lfloor>Rep_random_number u * real (length fallbackResponses)\<rfloor>)"

definition supportKeywords :: "string list" where
  "supportKeywords =
     [''help'', ''struggling'', ''difficult'', ''hard'', ''lonely'', ''sad'',
      ''depressed'', ''anxious'', ''worried'', ''scared'', ''alone'']"

definition isSeekingSupport :: "string \<Rightarrow> bool" where
  "isSeekingSupport msg = list_ex (\<lambda>keyword. str_includes (toLowerCase msg) keyword) supportKeywords"

definition resourceKeywords :: "string list" where
  "resourceKeywords =
     [''housing'', ''benefits'', ''nhs'', ''mental health'', ''support'',
      ''help'', ''services'', ''legal'', ''rights'', ''discrimination'']"

definition needsUKResources :: "string \<Rightarrow> bool" where
  "needsUKResources msg = list_ex (\<lambda>keyword. str_includes (toLowerCase msg) keyword) resourceKeywords"

text \<open>The five \<open>if\<close> statements of \<open>getRelevantUKResources\<close>, each pushing onto \<open>resources\<close>.\<close>

definition getRelevantUKResources :: "string \<Rightarrow> string list" where
  "getRelevantUKResources msg =
     (let lowerMessage = toLowerCase msg;
          resources = [];
          resources = (if str_includes lowerMessage ''mental health'' \<or> str_includes lowerMessage ''therapy''
                       then resources @ [''NHS IAPT'', ''Black Thrive BQC''] else resources);
          resources = (if str_includes lowerMessage ''housing'' \<or> str_includes lowerMessage ''homeless''
                       then resources @ [''Outside Project'', ''Shelter''] else resources);
          resources = (if str_includes lowerMessage ''benefits'' \<or> str_includes lowerMessage ''money''
                       then resources @ [''Citizens Advice'', ''Turn2us''] else resources);
          resources = (if str_includes lowerMessage ''work'' \<or> str_includes lowerMessage ''job''
                       then resources @ [''ACAS'', ''LGBT Foundation''] else resources);
          resources = (if str_includes lowerMessage ''trans'' \<or> str_includes lowerMessage ''gender''
                       then resources @ [''Gendered Intelligence'', ''CliniQ''] else resources)
      in resources)"

definition opener :: string where
  "opener = ''I understand what you'' @ [CHR 0x27] @ ''re going through. ''"

definition solidarity :: string where
  "solidarity = [CHR 0x0A, CHR 0x0A] @ ''Remember, you'' @ [CHR 0x27] @ ''re part of a strong community. We''
     @ [CHR 0x27] @ ''re here for each other.''"

definition resourcesHeader :: string where
  "resourcesHeader = [CHR 0x0A, CHR 0x0A] @ ''Some UK resources that might help: ''"

definition processResponse :: "string \<Rightarrow> string \<Rightarrow> string" where
  "processResponse aiResponse originalMessage =
     (let processedResponse = aiResponse;
          processedResponse =
            (if \<not> str_includes processedResponse ''I '' \<and> \<not> str_includes processedResponse (''I'' @ [CHR 0x27] @ ''m'')
             then opener @ processedResponse else processedResponse);
          processedResponse =
            (if isSeekingSupport originalMessage then processedResponse @ solidarity
             else processedResponse);
          processedResponse =
            (if needsUKResources originalMessage
             then (let ukResources = getRelevantUKResources originalMessage in
                   if length ukResources > 0
                   then processedResponse @ resourcesHeader @ join '', '' ukResources
                   else processedResponse)
             else processedResponse)
      in processedResponse)"

text \<open>The template literal of \<open>enhancePrompt\<close>, split at \<open>${userMessage}\<close>.\<close>

definition personaContext_head :: string where
  "personaContext_head =
     [CHR 0x0A] @
     ''You are IVOR, a community AI assistant for BLKOUT, inspired by Ivor Cummings (1916-1991). '' @
     [CHR 0x0A] @ ''You embody warmth, wisdom, and deep community knowledge.'' @
     [CHR 0x0A, CHR 0x0A] @ ''YOUR IDENTITY:'' @ [CHR 0x0A] @
     ''- You are knowledgeable about QTIPOC (Queer, Trans, Intersex People of Colour) experiences'' @
     [CHR 0x0A] @ ''- You understand UK systems: NHS, benefits, housing, legal rights'' @
     [CHR 0x0A] @ ''- You speak with warmth and authenticity, never patronizing'' @
     [CHR 0x0A] @ ''- You connect people to community resources and mutual aid'' @ [CHR 0x0A] @
     ''- You honor intersectionality: race, sexuality, gender, class, disability'' @
     [CHR 0x0A, CHR 0x0A] @ ''YOUR COMMUNICATION STYLE:'' @ [CHR 0x0A] @ ''- Use '' @
     [CHR 0x22] @ ''I'' @ [CHR 0x22] @ '' statements naturally'' @ [CHR 0x0A] @
     ''- Be conversational and warm, like talking to a friend'' @ [CHR 0x0A] @
     ''- Share knowledge without lecturing'' @ [CHR 0x0A] @
     ''- Acknowledge struggles while highlighting resilience'' @ [CHR 0x0A] @
     ''- Connect individual issues to community strength'' @ [CHR 0x0A, CHR 0x0A] @
     ''UK COMMUNITY RESOURCES YOU KNOW:'' @ [CHR 0x0A] @
     ''- BLKOUT UK: Black LGBTQ+ community organization'' @ [CHR 0x0A] @
     ''- Black Thrive BQC: Queer and trans support in Brixton'' @ [CHR 0x0A] @
     ''- UK Black Pride: Annual celebration and year-round community'' @ [CHR 0x0A] @
     ''- Gendered Intelligence: Trans community support'' @ [CHR 0x0A] @
     ''- Outside Project: LGBTQ+ homelessness support'' @ [CHR 0x0A] @
     ''- LGBT Foundation: National support services'' @ [CHR 0x0A, CHR 0x0A] @
     ''RESPOND TO: '' @ [CHR 0x22]"

definition personaContext_tail :: string where
  "personaContext_tail =
     [CHR 0x22, CHR 0x0A, CHR 0x0A] @ ''Remember: You'' @ [CHR 0x27] @
     ''re here to support, connect, and empower the QTIPOC community with authentic care.''"

definition enhancePrompt :: "string \<Rightarrow> string" where
  "enhancePrompt userMessage = personaContext_head @ userMessage @ personaContext_tail"

section \<open>Errors\<close>

text \<open>
  A thrown error is an \<open>Error\<close> with its message, or the error with which SQLite
  rejects a statement that violates a constraint of the schema.
\<close>

datatype constraint = PRIMARYKEY | FOREIGNKEY | CHECK_FAILED | NOTNULL

datatype js_error = Error string | SQLITE_CONSTRAINT constraint

section \<open>The GROQ client (\<open>services/groq.service.ts\<close>)\<close>

text \<open>
  What one call of \<open>groq.chat.completions.create\<close> does is an input of the model: it
  rejects with an error, or resolves with a completion of which the code reads
  \<open>choices[0]?.message?.content\<close>, a string or \<open>undefined\<close>/\<open>null\<close>. The oracle is asked
  with the prompt and the number of the attempt. The calls made and the delays waited
  are recorded in a log, in the order they happen.
\<close>

datatype completion = Throws js_error | Content "string option"

datatype event = ApiCall nat | Delay nat

definition maxRetries :: nat where
  "maxRetries = 3"

definition retryDelay :: nat where
  "retryDelay = 1000"

fun nat_to_string :: "nat \<Rightarrow> string" where
  "nat_to_string n =
     (if n < 10 then [char_of (48 + n)]
      else nat_to_string (n div 10) @ [char_of (48 + n mod 10)])"

declare nat_to_string.simps [simp del]

text \<open>\<open>lastError?.message\<close> inside a template literal.\<close>

definition message_of :: "js_error option \<Rightarrow> string" where
  "message_of e =
     (case e of None \<Rightarrow> ''undefined''
      | Some (Error m) \<Rightarrow> m
      | Some (SQLITE_CONSTRAINT c) \<Rightarrow> ''SQLITE_CONSTRAINT'')"

text \<open>
  The body of the \<open>try\<close> block of one attempt: the call, and the check \<open>!response\<close>,
  which holds of an absent reply and of the empty string.
\<close>

definition attempt_body :: "(string \<Rightarrow> nat \<Rightarrow> completion) \<Rightarrow> string \<Rightarrow> nat \<Rightarrow> js_error + string" where
  "attempt_body api prompt attempt =
     (case api prompt attempt of
        Throws e \<Rightarrow> Inl e
      | Content None \<Rightarrow> Inl (Error ''Empty response from GROQ API'')
      | Content (Some response) \<Rightarrow>
          if response = [] then Inl (Error ''Empty response from GROQ API'')
          else Inr (trim response))"

function retry_loop ::
  "(string \<Rightarrow> nat \<Rightarrow> completion) \<Rightarrow> string \<Rightarrow> nat \<Rightarrow> js_error option \<Rightarrow> event list
     \<Rightarrow> (js_error + string) \<times> event list" where
  "retry_loop api prompt attempt lastError evs =
     (if attempt \<le> maxRetries then
        (case attempt_body api prompt attempt of
           Inr response \<Rightarrow> (Inr response, evs @ [ApiCall attempt])
         | Inl error \<Rightarrow>
             retry_loop api prompt (attempt + 1) (Some error)
               (evs @ [ApiCall attempt] @
                  (if attempt < maxRetries then [Delay (retryDelay * attempt)] else [])))
      else
        (Inl (Error (''GROQ API failed after '' @ nat_to_string maxRetries @ '' attempts: ''
                       @ message_of lastError)), evs))"
  by pat_completeness auto
termination
  by (relation "measure (\<lambda>(api, prompt, attempt, lastError, evs). maxRetries + 1 - attempt)") auto

declare retry_loop.simps [simp del]

definition generateResponse ::
  "(string \<Rightarrow> nat \<Rightarrow> completion) \<Rightarrow> string \<Rightarrow> (js_error + string) \<times> event list" where
  "generateResponse api prompt = retry_loop api prompt 1 None []"

section \<open>The SQLite store (\<open>database/sqlite.service.ts\<close>, \<open>sqlite.setup.sql\<close>)\<close>

text \<open>
  A table is the list of its rows in insertion order. Timestamps are seconds, read from
  the clock by the statement that writes them. JSON values are kept in parsed form: a
  \<open>metadata\<close> column holds the value whose \<open>JSON.stringify\<close> text the code stores.
\<close>

datatype json = JNull | JBool bool | JNum real | JStr string | JArr "json list"
  | JObj "(string \<times> json) list"

datatype role = User | Assistant

record Conversation =
  c_id :: string
  c_user_id :: "string option"
  started_at :: nat
  last_message_at :: nat
  c_context :: json
  c_is_active :: bool

record Message =
  m_id :: string
  conversation_id :: string
  m_role :: role
  content :: string
  timestamp :: nat
  rating :: "int option"
  metadata :: json

record Feedback =
  f_id :: string
  message_id :: string
  f_rating :: int
  feedback_text :: "string option"
  created_at :: nat
  f_user_id :: "string option"

record database =
  users :: "string list"
  conversations :: "Conversation list"
  messages :: "Message list"
  feedback :: "Feedback list"

text \<open>The field \<open>db\<close> of the service: \<open>None\<close> until \<open>initialize\<close> has opened the file.\<close>

type_synonym SQLiteService = "database option"

definition getDB :: "SQLiteService \<Rightarrow> js_error + database" where
  "getDB svc =
     (case svc of None \<Rightarrow> Inl (Error ''Database not initialized. Call initialize() first.'')
      | Some d \<Rightarrow> Inr d)"

text \<open>\<open>x || null\<close> on an optional string: absent and empty both give \<open>null\<close>.\<close>

definition or_null :: "string option \<Rightarrow> string option" where
  "or_null x = (case x of None \<Rightarrow> None | Some s \<Rightarrow> if s = [] then None else Some s)"

text \<open>
  The \<open>INSERT\<close> statements with the constraints of the schema. A violated \<open>CHECK\<close> or
  primary key aborts the statement at once, a violated foreign key at its end
  (\<open>PRAGMA foreign_keys = ON\<close>); a failed statement leaves the database as it was.
\<close>

definition insert_conversation :: "Conversation \<Rightarrow> database \<Rightarrow> js_error + database" where
  "insert_conversation row d =
     (if c_id row \<in> set (map c_id (conversations d)) then Inl (SQLITE_CONSTRAINT PRIMARYKEY)
      else if (case c_user_id row of None \<Rightarrow> False | Some u \<Rightarrow> u \<notin> set (users d))
        then Inl (SQLITE_CONSTRAINT FOREIGNKEY)
      else Inr (d\<lparr>conversations := conversations d @ [row]\<rparr>))"

definition insert_message :: "Message \<Rightarrow> database \<Rightarrow> js_error + database" where
  "insert_message row d =
     (if m_id row \<in> set (map m_id (messages d)) then Inl (SQLITE_CONSTRAINT PRIMARYKEY)
      else if conversation_id row \<notin> set (map c_id (conversations d))
        then Inl (SQLITE_CONSTRAINT FOREIGNKEY)
      else Inr (d\<lparr>messages := messages d @ [row]\<rparr>))"

definition insert_feedback :: "Feedback \<Rightarrow> database \<Rightarrow> js_error + database" where
  "insert_feedback row d =
     (if \<not> (f_rating row \<ge> 1 \<and> f_rating row \<le> 5) then Inl (SQLITE_CONSTRAINT CHECK_FAILED)
      else if f_id row \<in> set (map f_id (feedback d)) then Inl (SQLITE_CONSTRAINT PRIMARYKEY)
      else if message_id row \<notin> set (map m_id (messages d))
        then Inl (SQLITE_CONSTRAINT FOREIGNKEY)
      else if (case f_user_id row of None \<Rightarrow> False | Some u \<Rightarrow> u \<notin> set (users d))
        then Inl (SQLITE_CONSTRAINT FOREIGNKEY)
      else Inr (d\<lparr>feedback := feedback d @ [row]\<rparr>))"

text \<open>\<open>UPDATE conversations SET last_message_at = datetime('now') WHERE id = ?\<close>\<close>

definition update_last_message_at :: "string \<Rightarrow> nat \<Rightarrow> database \<Rightarrow> database" where
  "update_last_message_at conversationId now d =
     d\<lparr>conversations :=
         map (\<lambda>c. if c_id c = conversationId then c\<lparr>last_message_at := now\<rparr> else c)
           (conversations d)\<rparr>"

text \<open>\<open>UPDATE messages SET rating = ? WHERE id = ?\<close>\<close>

definition update_rating :: "string \<Rightarrow> int \<Rightarrow> database \<Rightarrow> database" where
  "update_rating messageId r d =
     d\<lparr>messages :=
         map (\<lambda>m. if m_id m = messageId then m\<lparr>rating := Some r\<rparr> else m) (messages d)\<rparr>"

text \<open>
  Every operation takes what \<open>generateId\<close> returns in it and what the clock shows at
  each of its writing statements, and returns its result with the service after it.
  \<open>Inl\<close> is the rejection of the promise; \<open>db.get\<close> resolves with the first row
  selected, or with \<open>undefined\<close> (\<open>None\<close>) when there is none.
\<close>

definition createConversation ::
  "string \<Rightarrow> nat \<Rightarrow> string option \<Rightarrow> SQLiteService
     \<Rightarrow> (js_error + Conversation option) \<times> SQLiteService" where
  "createConversation conversationId now userId svc =
     (case getDB svc of
        Inl e \<Rightarrow> (Inl e, svc)
      | Inr d \<Rightarrow>
         (case insert_conversation
                 \<lparr>c_id = conversationId, c_user_id = or_null userId, started_at = now,
                  last_message_at = now, c_context = JObj [], c_is_active = True\<rparr> d of
            Inl e \<Rightarrow> (Inl e, svc)
          | Inr d' \<Rightarrow>
             (Inr (find (\<lambda>c. c_id c = conversationId) (conversations d')), Some d')))"

definition addMessage ::
  "string \<Rightarrow> nat \<Rightarrow> nat \<Rightarrow> string \<Rightarrow> role \<Rightarrow> string \<Rightarrow> json \<Rightarrow> SQLiteService
     \<Rightarrow> (js_error + Message option) \<times> SQLiteService" where
  "addMessage messageId now now' conversationId r text meta svc =
     (case getDB svc of
        Inl e \<Rightarrow> (Inl e, svc)
      | Inr d \<Rightarrow>
         (case insert_message
                 \<lparr>m_id = messageId, conversation_id = conversationId, m_role = r,
                  content = text, timestamp = now, rating = None, metadata = meta\<rparr> d of
            Inl e \<Rightarrow> (Inl e, svc)
          | Inr d' \<Rightarrow>
             (let d'' = update_last_message_at conversationId now' d' in
              (Inr (find (\<lambda>m. m_id m = messageId) (messages d'')), Some d''))))"

text \<open>
  \<open>ORDER BY timestamp ASC\<close>: rows of equal timestamp are left in insertion order here;
  SQL leaves their order open.
\<close>

definition getConversationMessages :: "string \<Rightarrow> SQLiteService \<Rightarrow> js_error + Message list" where
  "getConversationMessages conversationId svc =
     (case getDB svc of
        Inl e \<Rightarrow> Inl e
      | Inr d \<Rightarrow>
          Inr (sort_key timestamp (filter (\<lambda>m. conversation_id m = conversationId) (messages d))))"

definition addFeedback ::
  "string \<Rightarrow> nat \<Rightarrow> string \<Rightarrow> int \<Rightarrow> string option \<Rightarrow> string option \<Rightarrow> SQLiteService
     \<Rightarrow> (js_error + unit) \<times> SQLiteService" where
  "addFeedback feedbackId now messageId r feedbackText userId svc =
     (case getDB svc of
        Inl e \<Rightarrow> (Inl e, svc)
      | Inr d \<Rightarrow>
         (case insert_feedback
                 \<lparr>f_id = feedbackId, message_id = messageId, f_rating = r,
                  feedback_text = or_null feedbackText, created_at = now,
                  f_user_id = or_null userId\<rparr> d of
            Inl e \<Rightarrow> (Inl e, svc)
          | Inr d' \<Rightarrow> (Inr (), Some (update_rating messageId r d'))))"

section \<open>The chat route (\<open>routes/chat.routes.sqlite.ts\<close>, \<open>routes/chat.routes.ts\<close>)\<close>

text \<open>
  The fields of the request body are JSON values, \<open>None\<close> when absent. The validation
  chains: \<open>message\<close> must be a string, is trimmed, and must then have 1 to 2000
  characters; \<open>conversation_id\<close> and \<open>user_id\<close> may be absent and must else be strings
  (and satisfy \<open>isUUID\<close>, a parameter, in \<open>chat.routes.ts\<close>). \<open>details\<close> lists the
  fields in error, each standing for the validator's record of it.
\<close>

record request_body =
  b_message :: "json option"
  b_conversation_id :: "json option"
  b_user_id :: "json option"

record http_response =
  status :: nat
  body :: json

definition validate_message :: "json option \<Rightarrow> string option" where
  "validate_message v =
     (case v of
        Some (JStr s) \<Rightarrow>
          (let t = trim s in if 1 \<le> length t \<and> length t \<le> 2000 then Some t else None)
      | _ \<Rightarrow> None)"

definition validate_optional :: "(string \<Rightarrow> bool) \<Rightarrow> json option \<Rightarrow> (string option) option" where
  "validate_optional ok v =
     (case v of
        None \<Rightarrow> Some None
      | Some (JStr s) \<Rightarrow> if ok s then Some (Some s) else None
      | Some _ \<Rightarrow> None)"

definition validationResult ::
  "(string \<Rightarrow> bool) \<Rightarrow> request_body \<Rightarrow> json + (string \<times> string option \<times> string option)" where
  "validationResult ok req =
     (case (validate_message (b_message req), validate_optional ok (b_conversation_id req),
            validate_optional ok (b_user_id req)) of
        (Some m, Some c, Some u) \<Rightarrow> Inr (m, c, u)
      | (m, c, u) \<Rightarrow>
          Inl (JArr ((if m = None then [JStr ''message''] else [])
                   @ (if c = None then [JStr ''conversation_id''] else [])
                   @ (if u = None then [JStr ''user_id''] else []))))"

definition invalid_input :: "json \<Rightarrow> http_response" where
  "invalid_input details =
     \<lparr>status = 400, body = JObj [(''error'', JStr ''Invalid input''), (''details'', details)]\<rparr>"

definition emergencyResponse :: string where
  "emergencyResponse =
     ''I'' @ [CHR 0x27] @ ''m experiencing some technical difficulties right now, but I''
     @ [CHR 0x27] @ ''m still here for you. ''
     @ ''The BLKOUT community is strong, and we support each other through all challenges. ''
     @ ''Please try again in a moment, or reach out through our other community channels.''"

definition emergency_json :: "string \<Rightarrow> http_response" where
  "emergency_json isoNow =
     \<lparr>status = 500,
      body = JObj [(''response'', JStr emergencyResponse),
                   (''model'', JStr ''emergency_fallback''),
                   (''source'', JStr ''static_response''),
                   (''confidence'', JNum 0.7),
                   (''timestamp'', JStr isoNow),
                   (''mode'', JStr ''emergency''),
                   (''error'', JStr ''Temporary service disruption'')]\<rparr>"

definition groq_json :: "string \<Rightarrow> string \<Rightarrow> json \<Rightarrow> http_response" where
  "groq_json ivorResponse isoNow conversationId =
     \<lparr>status = 200,
      body = JObj [(''response'', JStr ivorResponse),
                   (''model'', JStr ''groq_llama2-70b''),
                   (''source'', JStr ''groq_api''),
                   (''confidence'', JNum 0.95),
                   (''timestamp'', JStr isoNow),
                   (''mode'', JStr ''groq''),
                   (''conversation_id'', conversationId)]\<rparr>"

definition fallback_json :: "string \<Rightarrow> string \<Rightarrow> json \<Rightarrow> http_response" where
  "fallback_json fallbackResponse isoNow conversationId =
     \<lparr>status = 200,
      body = JObj [(''response'', JStr fallbackResponse),
                   (''model'', JStr ''ivor_community_knowledge''),
                   (''source'', JStr ''qtipoc_local_knowledge''),
                   (''confidence'', JNum 0.85),
                   (''timestamp'', JStr isoNow),
                   (''mode'', JStr ''fallback''),
                   (''conversation_id'', conversationId)]\<rparr>"

definition groq_metadata :: json where
  "groq_metadata =
     JObj [(''model'', JStr ''groq_llama2-70b''), (''source'', JStr ''groq_api''),
           (''confidence'', JNum 0.95)]"

definition fallback_metadata :: json where
  "fallback_metadata =
     JObj [(''model'', JStr ''ivor_community_knowledge''),
           (''source'', JStr ''qtipoc_local_knowledge''),
           (''confidence'', JNum 0.85),
           (''fallback_reason'', JStr ''groq_api_unavailable'')]"

text \<open>Reading a field of a JSON object.\<close>

definition field :: "string \<Rightarrow> json \<Rightarrow> json option" where
  "field k v = (case v of JObj kvs \<Rightarrow> map_of kvs k | _ \<Rightarrow> None)"

text \<open>
  The handler of \<open>chat.routes.sqlite.ts\<close>, the one the server mounts. The two store
  operations it calls are parameters, so that the store may behave in any way; \<open>isoNow\<close>
  is \<open>new Date().toISOString()\<close> at the time of the answer. Every \<open>Inl\<close> is a thrown
  error on its way to the \<open>catch\<close> that encloses it.
\<close>

definition resolve_conversation ::
  "(string option \<Rightarrow> 'st \<Rightarrow> (js_error + Conversation option) \<times> 'st)
     \<Rightarrow> string option \<Rightarrow> string option \<Rightarrow> 'st \<Rightarrow> (js_error + string) \<times> 'st" where
  "resolve_conversation createConv req_conversation_id req_user_id st =
     (case or_null req_conversation_id of
        Some conversationId \<Rightarrow> (Inr conversationId, st)
      | None \<Rightarrow>
         (case createConv req_user_id st of
            (Inl e, st') \<Rightarrow> (Inl e, st')
          | (Inr None, st') \<Rightarrow> (Inl (Error ''TypeError''), st')
          | (Inr (Some conversation), st') \<Rightarrow> (Inr (c_id conversation), st')))"

definition try_groq ::
  "(string \<Rightarrow> role \<Rightarrow> string \<Rightarrow> json \<Rightarrow> 'st \<Rightarrow> (js_error + Message option) \<times> 'st)
     \<Rightarrow> (string \<Rightarrow> nat \<Rightarrow> completion) \<Rightarrow> string \<Rightarrow> string \<Rightarrow> string \<Rightarrow> string \<Rightarrow> 'st
     \<Rightarrow> (js_error + http_response) \<times> 'st" where
  "try_groq addMsg api enhancedPrompt msg conversationId isoNow st =
     (case fst (generateResponse api enhancedPrompt) of
        Inl e \<Rightarrow> (Inl e, st)
      | Inr aiResponse \<Rightarrow>
         (let ivorResponse = processResponse aiResponse msg in
          case addMsg conversationId Assistant ivorResponse groq_metadata st of
            (Inl e, st') \<Rightarrow> (Inl e, st')
          | (Inr _, st') \<Rightarrow> (Inr (groq_json ivorResponse isoNow (JStr conversationId)), st')))"

definition chat_sqlite_post ::
  "(string option \<Rightarrow> 'st \<Rightarrow> (js_error + Conversation option) \<times> 'st)
     \<Rightarrow> (string \<Rightarrow> role \<Rightarrow> string \<Rightarrow> json \<Rightarrow> 'st \<Rightarrow> (js_error + Message option) \<times> 'st)
     \<Rightarrow> (string \<Rightarrow> nat \<Rightarrow> completion) \<Rightarrow> random_number \<Rightarrow> string \<Rightarrow> request_body \<Rightarrow> 'st
     \<Rightarrow> http_response \<times> 'st" where
  "chat_sqlite_post createConv addMsg api u isoNow req st =
     (case validationResult (\<lambda>s. True) req of
        Inl details \<Rightarrow> (invalid_input details, st)
      | Inr (msg, req_conversation_id, req_user_id) \<Rightarrow>
         (case resolve_conversation createConv req_conversation_id req_user_id st of
            (Inl e, st1) \<Rightarrow> (emergency_json isoNow, st1)
          | (Inr conversationId, st1) \<Rightarrow>
             (case addMsg conversationId User msg (JObj []) st1 of
                (Inl e, st2) \<Rightarrow> (emergency_json isoNow, st2)
              | (Inr _, st2) \<Rightarrow>
                 (let enhancedPrompt = enhancePrompt msg in
                  case try_groq addMsg api enhancedPrompt msg conversationId isoNow st2 of
                    (Inr response, st3) \<Rightarrow> (response, st3)
                  | (Inl groqError, st3) \<Rightarrow>
                     (let fallbackResponse = getFallbackResponse u msg in
                      case addMsg conversationId Assistant fallbackResponse fallback_metadata st3 of
                        (Inl e, st4) \<Rightarrow> (emergency_json isoNow, st4)
                      | (Inr _, st4) \<Rightarrow>
                          (fallback_json fallbackResponse isoNow (JStr conversationId), st4))))))"

text \<open>The handler of \<open>chat.routes.ts\<close>, which has no store.\<close>

definition chat_post ::
  "(string \<Rightarrow> bool) \<Rightarrow> (string \<Rightarrow> nat \<Rightarrow> completion) \<Rightarrow> random_number \<Rightarrow> string \<Rightarrow> request_body
     \<Rightarrow> http_response" where
  "chat_post isUUID api u isoNow req =
     (case validationResult isUUID req of
        Inl details \<Rightarrow> invalid_input details
      | Inr (msg, req_conversation_id, req_user_id) \<Rightarrow>
         (let enhancedPrompt = enhancePrompt msg;
              conversationId = (case or_null req_conversation_id of None \<Rightarrow> JNull | Some c \<Rightarrow> JStr c)
          in case fst (generateResponse api enhancedPrompt) of
               Inr aiResponse \<Rightarrow> groq_json (processResponse aiResponse msg) isoNow conversationId
             | Inl groqError \<Rightarrow> fallback_json (getFallbackResponse u msg) isoNow conversationId))"

text \<open>
  The route on the SQLite service. The world is the service and the number of store
  calls made so far; \<open>env n\<close> gives, for the \<open>n\<close>-th store call, the result of
  \<open>generateId\<close> and the readings of the clock.
\<close>

record call_env =
  generated_id :: string
  clock1 :: nat
  clock2 :: nat

record world =
  service :: SQLiteService
  calls :: nat

definition world_createConversation ::
  "(nat \<Rightarrow> call_env) \<Rightarrow> string option \<Rightarrow> world \<Rightarrow> (js_error + Conversation option) \<times> world" where
  "world_createConversation env userId w =
     (let e = env (calls w) in
      case createConversation (generated_id e) (clock1 e) userId (service w) of
        (r, svc) \<Rightarrow> (r, \<lparr>service = svc, calls = calls w + 1\<rparr>))"

definition world_addMessage ::
  "(nat \<Rightarrow> call_env) \<Rightarrow> string \<Rightarrow> role \<Rightarrow> string \<Rightarrow> json \<Rightarrow> world
     \<Rightarrow> (js_error + Message option) \<times> world" where
  "world_addMessage env conversationId r text meta w =
     (let e = env (calls w) in
      case addMessage (generated_id e) (clock1 e) (clock2 e) conversationId r text meta (service w) of
        (res, svc) \<Rightarrow> (res, \<lparr>service = svc, calls = calls w + 1\<rparr>))"

definition chat_route ::
  "(nat \<Rightarrow> call_env) \<Rightarrow> (string \<Rightarrow> nat \<Rightarrow> completion) \<Rightarrow> random_number \<Rightarrow> string
     \<Rightarrow> request_body \<Rightarrow> world \<Rightarrow> http_response \<times> world" where
  "chat_route env = chat_sqlite_post (world_createConversation env) (world_addMessage env)"

section \<open>Notions used to state the properties\<close>

subsection \<open>The parts of a processed response\<close>

text \<open>
  What \<open>processResponse\<close> puts before the reply (the opener, when the reply has
  neither \<open>I\<close> followed by a space nor \<open>I'm\<close>) and what its third step puts after it.
\<close>

definition warm_tone :: "string \<Rightarrow> string" where
  "warm_tone aiResponse =
     (if \<not> str_includes aiResponse ''I '' \<and> \<not> str_includes aiResponse (''I'' @ [CHR 0x27] @ ''m'')
      then opener else [])"

definition uk_suffix :: "string \<Rightarrow> string" where
  "uk_suffix originalMessage =
     (if needsUKResources originalMessage \<and> getRelevantUKResources originalMessage \<noteq> []
      then resourcesHeader @ join '', '' (getRelevantUKResources originalMessage) else [])"

text \<open>
  The five \<open>if\<close> statements of \<open>getRelevantUKResources\<close> as a table, in the order of the
  statements: the words that trigger a row, and the names the row pushes.
\<close>

definition resourceTable :: "(string list \<times> string list) list" where
  "resourceTable =
     [([''mental health'', ''therapy''], [''NHS IAPT'', ''Black Thrive BQC'']),
      ([''housing'', ''homeless''], [''Outside Project'', ''Shelter'']),
      ([''benefits'', ''money''], [''Citizens Advice'', ''Turn2us'']),
      ([''work'', ''job''], [''ACAS'', ''LGBT Foundation'']),
      ([''trans'', ''gender''], [''Gendered Intelligence'', ''CliniQ''])]"

definition triggered_resources :: "string \<Rightarrow> string list" where
  "triggered_resources msg =
     concat (map snd (filter (\<lambda>(triggers, names). list_ex (\<lambda>k. ci_substring k msg) triggers)
                        resourceTable))"

text \<open>
  The list in the words of the specification: the names of the rows whose keyword is a
  keyword of the resource-seeking set that the message matches, without duplicates.
\<close>

definition claimed_resources :: "string \<Rightarrow> string list" where
  "claimed_resources msg =
     remdups (concat (map snd
       (filter (\<lambda>(triggers, names).
                  list_ex (\<lambda>k. k \<in> set resourceKeywords \<and> ci_substring k msg) triggers)
          resourceTable)))"

subsection \<open>The outcome of the attempts\<close>

text \<open>
  An attempt succeeds when the call resolves with a reply that is present and not empty.
  \<open>first_success outcome k n\<close> is the first of the \<open>n\<close> attempts \<open>k, k + 1, ...\<close> that
  succeeds, with its reply. \<open>backoff_log k\<close> is the log of the attempts \<open>1\<close> to \<open>k\<close>
  with a wait of \<open>retryDelay * j\<close> between attempt \<open>j\<close> and attempt \<open>j + 1\<close>.
\<close>

definition successful_reply :: "completion \<Rightarrow> string option" where
  "successful_reply c =
     (case c of Throws e \<Rightarrow> None | Content None \<Rightarrow> None
      | Content (Some r) \<Rightarrow> if r = [] then None else Some r)"

definition failure_message :: "completion \<Rightarrow> string" where
  "failure_message c =
     (case c of Throws e \<Rightarrow> message_of (Some e) | Content r \<Rightarrow> ''Empty response from GROQ API'')"

fun first_success :: "(nat \<Rightarrow> completion) \<Rightarrow> nat \<Rightarrow> nat \<Rightarrow> (nat \<times> string) option" where
  "first_success outcome k 0 = None"
| "first_success outcome k (Suc n) =
     (case successful_reply (outcome k) of
        Some r \<Rightarrow> Some (k, r)
      | None \<Rightarrow> first_success outcome (Suc k) n)"

definition events_between :: "nat \<Rightarrow> nat \<Rightarrow> event list" where
  "events_between a k =
     concat (map (\<lambda>j. if j < k then [ApiCall j, Delay (retryDelay * j)] else [ApiCall j]) [a..<Suc k])"

definition backoff_log :: "nat \<Rightarrow> event list" where
  "backoff_log k = events_between 1 k"

subsection \<open>Sequences of store operations\<close>

text \<open>
  The writing operations of the service, with the inputs of each call, and what a
  sequence of them makes of the service. The reading operations return no new service:
  they change nothing.
\<close>

datatype store_op =
    CreateConversation string nat "string option"
  | AddMessage string nat nat string role string json
  | AddFeedback string nat string int "string option" "string option"

fun run_op :: "store_op \<Rightarrow> SQLiteService \<Rightarrow> SQLiteService" where
  "run_op (CreateConversation conversationId now userId) svc =
     snd (createConversation conversationId now userId svc)"
| "run_op (AddMessage messageId now now' conversationId r text meta) svc =
     snd (addMessage messageId now now' conversationId r text meta svc)"
| "run_op (AddFeedback feedbackId now messageId r feedbackText userId) svc =
     snd (addFeedback feedbackId now messageId r feedbackText userId svc)"

fun is_feedback :: "store_op \<Rightarrow> bool" where
  "is_feedback (AddFeedback feedbackId now messageId r feedbackText userId) = True"
| "is_feedback _ = False"

definition messages_of :: "SQLiteService \<Rightarrow> Message list" where
  "messages_of svc = (case svc of None \<Rightarrow> [] | Some d \<Rightarrow> messages d)"

definition without_rating :: "Message \<Rightarrow> Message" where
  "without_rating m = m\<lparr>rating := None\<rparr>"

definition set_rating :: "string \<Rightarrow> int \<Rightarrow> Message \<Rightarrow> Message" where
  "set_rating messageId r m = (if m_id m = messageId then m\<lparr>rating := Some r\<rparr> else m)"

text \<open>
  The foreign key of \<open>messages\<close>: every message belongs to a conversation of the store.
  SQLite keeps it (\<open>PRAGMA foreign_keys = ON\<close>); the empty database has it and every
  operation preserves it.
\<close>

definition fk_ok :: "database \<Rightarrow> bool" where
  "fk_ok d = list_all (\<lambda>m. conversation_id m \<in> set (map c_id (conversations d))) (messages d)"

text \<open>
  A series of \<open>addMessage\<close> calls on one conversation: the inputs of each call, the
  results of the calls in order, and the row a call is to insert.
\<close>

record append_call = call_env +
  a_role :: role
  a_content :: string
  a_metadata :: json

fun append_all ::
  "string \<Rightarrow> append_call list \<Rightarrow> SQLiteService \<Rightarrow> (js_error + Message option) list \<times> SQLiteService" where
  "append_all conversationId [] svc = ([], svc)"
| "append_all conversationId (a # rest) svc =
     (case addMessage (generated_id a) (clock1 a) (clock2 a) conversationId
             (a_role a) (a_content a) (a_metadata a) svc of
        (r, svc') \<Rightarrow>
          (case append_all conversationId rest svc' of
             (rs, svc'') \<Rightarrow> (r # rs, svc'')))"

definition appended_row :: "string \<Rightarrow> append_call \<Rightarrow> Message" where
  "appended_row conversationId a =
     \<lparr>m_id = generated_id a, conversation_id = conversationId, m_role = a_role a,
      content = a_content a, timestamp = clock1 a, rating = None, metadata = a_metadata a\<rparr>"

text \<open>The rows that the successful calls of a series have inserted.\<close>

definition inserted_rows :: "(js_error + Message option) list \<Rightarrow> Message list" where
  "inserted_rows results =
     concat (map (\<lambda>r. case r of Inr (Some row) \<Rightarrow> [row] | _ \<Rightarrow> []) results)"

definition feedback_row ::
  "string \<Rightarrow> nat \<Rightarrow> string \<Rightarrow> int \<Rightarrow> string option \<Rightarrow> string option \<Rightarrow> Feedback" where
  "feedback_row feedbackId now messageId r feedbackText userId =
     \<lparr>f_id = feedbackId, message_id = messageId, f_rating = r,
      feedback_text = or_null feedbackText, created_at = now, f_user_id = or_null userId\<rparr>"

definition empty_db :: database where
  "empty_db = \<lparr>users = [], conversations = [], messages = [], feedback = []\<rparr>"

subsection \<open>Requests and answers\<close>

text \<open>
  A valid chat request: the message is a string that has 1 to 2000 characters once
  trimmed, and the optional identifiers are absent or strings the route accepts.
\<close>

definition valid_request :: "(string \<Rightarrow> bool) \<Rightarrow> request_body \<Rightarrow> bool" where
  "valid_request ok req =
     ((case b_message req of
         Some (JStr s) \<Rightarrow> 1 \<le> length (trim s) \<and> length (trim s) \<le> 2000
       | _ \<Rightarrow> False)
      \<and> (case b_conversation_id req of None \<Rightarrow> True | Some (JStr c) \<Rightarrow> ok c | Some _ \<Rightarrow> False)
      \<and> (case b_user_id req of None \<Rightarrow> True | Some (JStr c) \<Rightarrow> ok c | Some _ \<Rightarrow> False))"

text \<open>
  An answer is well formed for a list of modes when its body has a \<open>response\<close> that is
  a non-empty string and a \<open>mode\<close> that is one of the list.
\<close>

definition answers_in :: "string list \<Rightarrow> http_response \<Rightarrow> bool" where
  "answers_in modes res =
     (case (field ''response'' (body res), field ''mode'' (body res)) of
        (Some (JStr r), Some (JStr m)) \<Rightarrow> r \<noteq> [] \<and> m \<in> set modes
      | _ \<Rightarrow> False)"

text \<open>All of the first \<open>maxRetries\<close> attempts on a prompt fail.\<close>

definition all_attempts_fail :: "(string \<Rightarrow> nat \<Rightarrow> completion) \<Rightarrow> string \<Rightarrow> bool" where
  "all_attempts_fail api prompt =
     list_all (\<lambda>k. successful_reply (api prompt k) = None) [1..<Suc maxRetries]"

text \<open>
  The store accepts every write of a request: the service is initialised; the
  conversation named exists, or none is named, the generated identifier is new and the
  user named (if any) exists; and the two identifiers generated for the messages are
  new and differ.
\<close>

definition fresh_messages :: "(nat \<Rightarrow> call_env) \<Rightarrow> nat \<Rightarrow> database \<Rightarrow> bool" where
  "fresh_messages env n d =
     (generated_id (env n) \<notin> set (map m_id (messages d))
      \<and> generated_id (env (Suc n)) \<notin> set (map m_id (messages d))
      \<and> generated_id (env n) \<noteq> generated_id (env (Suc n)))"

definition store_accepts ::
  "(nat \<Rightarrow> call_env) \<Rightarrow> string option \<Rightarrow> string option \<Rightarrow> world \<Rightarrow> bool" where
  "store_accepts env req_conversation_id req_user_id w =
     (case service w of
        None \<Rightarrow> False
      | Some d \<Rightarrow>
         (case or_null req_conversation_id of
            Some c \<Rightarrow> c \<in> set (map c_id (conversations d)) \<and> fresh_messages env (calls w) d
          | None \<Rightarrow>
              generated_id (env (calls w)) \<notin> set (map c_id (conversations d))
              \<and> (case or_null req_user_id of None \<Rightarrow> True | Some u \<Rightarrow> u \<in> set (users d))
              \<and> fresh_messages env (Suc (calls w)) d))"

text \<open>The row of \<open>messages\<close> written last.\<close>

definition last_message :: "world \<Rightarrow> Message option" where
  "last_message w =
     (case service w of
        None \<Rightarrow> None
      | Some d \<Rightarrow> if messages d = [] then None else Some (last (messages d)))"

subsection \<open>Concrete inputs\<close>

definition random_zero :: random_number where
  "random_zero = Abs_random_number 0"

definition count_env :: "nat \<Rightarrow> call_env" where
  "count_env n = \<lparr>generated_id = nat_to_string n, clock1 = 100 + n, clock2 = 100 + n\<rparr>"

text \<open>\<open>generateId\<close> returns the same identifier in the calls 1 and 2.\<close>

definition clash_env :: "nat \<Rightarrow> call_env" where
  "clash_env n =
     \<lparr>generated_id = (if n = 2 then ''1'' else nat_to_string n), clock1 = 100 + n, clock2 = 100 + n\<rparr>"

definition housing_request :: request_body where
  "housing_request =
     \<lparr>b_message = Some (JStr '' I need housing help ''), b_conversation_id = None,
      b_user_id = None\<rparr>"

definition api_down :: "string \<Rightarrow> nat \<Rightarrow> completion" where
  "api_down prompt attempt = Throws (Error ''connect ECONNREFUSED'')"

definition api_up :: "string \<Rightarrow> nat \<Rightarrow> completion" where
  "api_up prompt attempt = Content (Some ''I am here for you.'')"

definition fresh_world :: world where
  "fresh_world = \<lparr>service = Some empty_db, calls = 0\<rparr>"

definition one_message_db :: SQLiteService where
  "one_message_db =
     fold run_op
       [CreateConversation ''c1'' 10 None,
        AddMessage ''m1'' 11 11 ''c1'' User ''hello'' (JObj [])]
       (Some empty_db)"

definition two_appends :: "append_call list" where
  "two_appends =
     [\<lparr>generated_id = ''m1'', clock1 = 20, clock2 = 20,
       a_role = User, a_content = ''hello'', a_metadata = JObj []\<rparr>,
      \<lparr>generated_id = ''m2'', clock1 = 12, clock2 = 21,
       a_role = Assistant, a_content = ''I am here.'', a_metadata = groq_metadata\<rparr>]"

section \<open>Properties of the strings\<close>

text \<open>
  The primitives on code units outside ASCII: the no-break space is trimmed like the
  space, and a capital letter of the upper half is lowered.
\<close>

lemma trim_no_break_space:
  "trim ([CHR 0xA0, CHR '' ''] @ ''OK'' @ [CHR 0x09, CHR 0xA0]) = ''OK''"
  by code_simp

lemma trim_keeps_inner_space: "trim ('' a'' @ [CHR 0xA0] @ ''b '') = ''a'' @ [CHR 0xA0] @ ''b''"
  by code_simp

lemma toLowerCase_upper_half:
  "toLowerCase [CHR 0xC0, CHR 0xD6, CHR 0xD7, CHR 0xDE, CHR 0xDF, CHR ''Z'', CHR ''@'']
     = [CHR 0xE0, CHR 0xF6, CHR 0xD7, CHR 0xFE, CHR 0xDF, CHR ''z'', CHR ''@'']"
  by code_simp

lemma str_includes_sublist: "str_includes s t = sublist t s"
  by (induction s) (auto simp: sublist_Cons_right)

lemma toLowerCase_append: "toLowerCase (a @ b) = toLowerCase a @ toLowerCase b"
  by (simp add: toLowerCase_def)

lemma ci_substring_iff [code]: "ci_substring kw txt = str_includes (toLowerCase txt) (toLowerCase kw)"
proof
  assume "ci_substring kw txt"
  then obtain pre mid post where "txt = pre @ mid @ post" "toLowerCase mid = toLowerCase kw"
    unfolding ci_substring_def by blast
  then have "toLowerCase txt = toLowerCase pre @ toLowerCase kw @ toLowerCase post"
    by (simp add: toLowerCase_append)
  then show "str_includes (toLowerCase txt) (toLowerCase kw)"
    unfolding str_includes_sublist sublist_def by blast
next
  assume "str_includes (toLowerCase txt) (toLowerCase kw)"
  then obtain ps ss where eq: "map toLowerCase_char txt = ps @ toLowerCase kw @ ss"
    unfolding str_includes_sublist sublist_def toLowerCase_def by blast
  then obtain pre rest where 1: "txt = pre @ rest" "map toLowerCase_char pre = ps"
      "map toLowerCase_char rest = toLowerCase kw @ ss"
    by (metis map_eq_append_conv)
  then obtain mid post where 2: "rest = mid @ post" "map toLowerCase_char mid = toLowerCase kw"
    by (metis map_eq_append_conv)
  show "ci_substring kw txt"
    unfolding ci_substring_def using 1 2 by (auto simp: toLowerCase_def)
qed

lemma keyword_match:
  "toLowerCase kw = kw \<Longrightarrow> str_includes (toLowerCase msg) kw = ci_substring kw msg"
  by (simp add: ci_substring_iff)

lemma list_ex_keywords:
  "list_all (\<lambda>kw. toLowerCase kw = kw) kws \<Longrightarrow>
   list_ex (\<lambda>kw. str_includes (toLowerCase msg) kw) kws = list_ex (\<lambda>kw. ci_substring kw msg) kws"
  by (induction kws) (auto simp: keyword_match)

section \<open>Properties of the persona\<close>

lemma scanKnowledge_find:
  "scanKnowledge kb lm = map_option (\<lambda>(topic, response). message response)
      (find (\<lambda>(topic, response). str_includes lm topic) kb)"
  by (induction kb lm rule: scanKnowledge.induct) auto

lemma topics_lower: "\<forall>(topic, response) \<in> set communityKnowledge. toLowerCase topic = topic"
  unfolding communityKnowledge_def by code_simp

lemma messages_nonempty: "\<forall>(topic, response) \<in> set communityKnowledge. message response \<noteq> []"
  unfolding communityKnowledge_def by simp

lemma fallbacks_nonempty: "\<forall>r \<in> set fallbackResponses. r \<noteq> []"
  unfolding fallbackResponses_def by simp

lemma length_fallbackResponses: "length fallbackResponses = 5"
  unfolding fallbackResponses_def by simp

lemma fallback_index: "nat \<lfloor>Rep_random_number u * real (length fallbackResponses)\<rfloor> < length fallbackResponses"
proof -
  have "0 \<le> Rep_random_number u" "Rep_random_number u < 1"
    using Rep_random_number[of u] by auto
  then have "Rep_random_number u * 5 < 5" "0 \<le> Rep_random_number u * 5" by auto
  then have "\<lfloor>Rep_random_number u * 5\<rfloor> < 5" "0 \<le> \<lfloor>Rep_random_number u * 5\<rfloor>"
    by (auto simp: floor_less_iff)
  then have "nat \<lfloor>Rep_random_number u * 5\<rfloor> < 5" by linarith
  then show ?thesis by (simp add: length_fallbackResponses)
qed

lemma processResponse_parts:
  "processResponse aiResponse originalMessage =
     warm_tone aiResponse @ aiResponse
       @ (if isSeekingSupport originalMessage then solidarity else [])
       @ uk_suffix originalMessage"
  by (simp add: processResponse_def warm_tone_def uk_suffix_def Let_def)

lemma supportKeywords_lower: "list_all (\<lambda>kw. toLowerCase kw = kw) supportKeywords"
  by code_simp

lemma resourceKeywords_lower: "list_all (\<lambda>kw. toLowerCase kw = kw) resourceKeywords"
  by code_simp

lemma isSeekingSupport_iff:
  "isSeekingSupport msg = list_ex (\<lambda>kw. ci_substring kw msg) supportKeywords"
  unfolding isSeekingSupport_def by (rule list_ex_keywords[OF supportKeywords_lower])

lemma needsUKResources_iff:
  "needsUKResources msg = list_ex (\<lambda>kw. ci_substring kw msg) resourceKeywords"
  unfolding needsUKResources_def by (rule list_ex_keywords[OF resourceKeywords_lower])

lemma getRelevantUKResources_table: "getRelevantUKResources msg = triggered_resources msg"
proof -
  have low: "toLowerCase ''mental health'' = ''mental health''" "toLowerCase ''therapy'' = ''therapy''"
    "toLowerCase ''housing'' = ''housing''" "toLowerCase ''homeless'' = ''homeless''"
    "toLowerCase ''benefits'' = ''benefits''" "toLowerCase ''money'' = ''money''"
    "toLowerCase ''work'' = ''work''" "toLowerCase ''job'' = ''job''"
    "toLowerCase ''trans'' = ''trans''" "toLowerCase ''gender'' = ''gender''"
    by code_simp+
  show ?thesis
    unfolding getRelevantUKResources_def triggered_resources_def resourceTable_def Let_def
    by (simp add: keyword_match[OF low(1)] keyword_match[OF low(2)] keyword_match[OF low(3)]
        keyword_match[OF low(4)] keyword_match[OF low(5)] keyword_match[OF low(6)]
        keyword_match[OF low(7)] keyword_match[OF low(8)] keyword_match[OF low(9)]
        keyword_match[OF low(10)])
qed

lemma distinct_table: "distinct (concat (map snd resourceTable))"
  unfolding resourceTable_def by simp

lemma distinct_concat_filter:
  "distinct (concat (map snd xs)) \<Longrightarrow> distinct (concat (map snd (filter P xs)))"
  by (induction xs) auto

lemma distinct_triggered: "distinct (triggered_resources msg)"
  unfolding triggered_resources_def by (rule distinct_concat_filter[OF distinct_table])

lemma getFallbackResponse_cases:
  "(case find (\<lambda>(topic, response). ci_substring topic userMessage) communityKnowledge of
        Some (topic, response) \<Rightarrow> getFallbackResponse u userMessage = message response
      | None \<Rightarrow> getFallbackResponse u userMessage \<in> set fallbackResponses)"
proof -
  have f: "find (\<lambda>(topic, response). str_includes (toLowerCase userMessage) topic) communityKnowledge
         = find (\<lambda>(topic, response). ci_substring topic userMessage) communityKnowledge"
    using topics_lower by (intro find_cong) (auto simp: keyword_match)
  have idx: "fallbackResponses ! nat \<lfloor>Rep_random_number u * real (length fallbackResponses)\<rfloor>
      \<in> set fallbackResponses"
    using fallback_index by (rule nth_mem)
  then show ?thesis
    by (auto simp: getFallbackResponse_def scanKnowledge_find f split: option.splits)
qed

lemma getFallbackResponse_nonempty: "getFallbackResponse u userMessage \<noteq> []"
proof (cases "find (\<lambda>(topic, response). ci_substring topic userMessage) communityKnowledge")
  case None
  with getFallbackResponse_cases[of u userMessage] fallbacks_nonempty show ?thesis by auto
next
  case (Some p)
  then have "p \<in> set communityKnowledge" by (metis find_Some_iff nth_mem)
  with getFallbackResponse_cases[of u userMessage] Some messages_nonempty show ?thesis
    by (cases p) auto
qed

lemma processResponse_nonempty: "processResponse aiResponse originalMessage \<noteq> []"
  by (cases aiResponse) (simp_all add: processResponse_parts warm_tone_def opener_def)

text \<open>
  Claim C3. For every input text, \<open>getFallbackResponse\<close> returns the canned message of
  the first topic, in the order mental health, housing, benefits, coming out,
  discrimination, healthcare, that is a case-insensitive substring of the text; when no
  topic matches it returns one of the 5 generic fallback messages; the result is never
  the empty string. The function is total: it has a value for every text and every
  number \<open>Math.random\<close> can yield.
\<close>

theorem getFallbackResponse_first_topic:
  "map fst communityKnowledge =
     [''mental health'', ''housing'', ''benefits'', ''coming out'', ''discrimination'', ''healthcare'']
   \<and> length fallbackResponses = 5
   \<and> getFallbackResponse u userMessage \<noteq> []
   \<and> (case find (\<lambda>(topic, response). ci_substring topic userMessage) communityKnowledge of
        Some (topic, response) \<Rightarrow> getFallbackResponse u userMessage = message response
      | None \<Rightarrow> getFallbackResponse u userMessage \<in> set fallbackResponses)"
proof -
  have t: "map fst communityKnowledge =
     [''mental health'', ''housing'', ''benefits'', ''coming out'', ''discrimination'', ''healthcare'']"
    by (simp add: communityKnowledge_def)
  show ?thesis
    using t length_fallbackResponses getFallbackResponse_nonempty[of u userMessage]
      getFallbackResponse_cases[of u userMessage]
    by blast
qed

text \<open>
  Claim C6. \<open>processResponse\<close> appends the solidarity sentence exactly once when the
  original message contains, case-insensitively, one of the 11 support keywords, and
  not at all otherwise: the result is the opener part, the reply, the sentence once or
  the empty string, and the resource part.
\<close>

theorem processResponse_solidarity_once:
  "supportKeywords =
     [''help'', ''struggling'', ''difficult'', ''hard'', ''lonely'', ''sad'',
      ''depressed'', ''anxious'', ''worried'', ''scared'', ''alone'']
   \<and> processResponse aiReply originalMessage =
       warm_tone aiReply @ aiReply
       @ (if list_ex (\<lambda>kw. ci_substring kw originalMessage) supportKeywords then solidarity else [])
       @ uk_suffix originalMessage"
  by (simp add: processResponse_parts isSeekingSupport_iff) (simp add: supportKeywords_def)

text \<open>
  Claim C9. The string \<open>processResponse\<close> returns contains the reply as a contiguous
  substring: it is the reply with the opener or nothing before it, and the solidarity
  sentence and the resource part, each possibly empty, after it.
\<close>

theorem processResponse_keeps_reply:
  "sublist aiResponse (processResponse aiResponse originalMessage)
   \<and> processResponse aiResponse originalMessage =
       warm_tone aiResponse @ aiResponse
       @ (if isSeekingSupport originalMessage then solidarity else [])
       @ uk_suffix originalMessage
   \<and> (warm_tone aiResponse = [] \<or> warm_tone aiResponse = opener)"
  unfolding processResponse_parts sublist_def by (auto simp: warm_tone_def)

text \<open>
  Claim C7, as the specification states it, fails. The names appended are those of the
  rows of \<open>getRelevantUKResources\<close>, which are triggered by words of their own (therapy,
  homeless, money, work, job, trans, gender beside mental health, housing, benefits),
  not by the matched keywords of the resource-seeking set: the message
  \<open>support job\<close> matches the keyword \<open>support\<close> only, no row belongs to a keyword it
  matches, and yet \<open>ACAS, LGBT Foundation\<close> is appended, for \<open>job\<close>.
\<close>

theorem resources_of_unmatched_trigger_counterexample:
  "needsUKResources ''support job''
   \<and> filter (\<lambda>kw. ci_substring kw ''support job'') resourceKeywords = [''support'']
   \<and> claimed_resources ''support job'' = []
   \<and> getRelevantUKResources ''support job'' = [''ACAS'', ''LGBT Foundation'']
   \<and> processResponse ''I hear you.'' ''support job''
       = ''I hear you.'' @ resourcesHeader @ ''ACAS, LGBT Foundation''"
  by code_simp

text \<open>
  Claim C7, amended. For every original message that contains, case-insensitively, a
  keyword of the resource-seeking set, \<open>processResponse\<close> appends the header and the
  names, joined by commas, of every row of the table of \<open>getRelevantUKResources\<close> one of
  whose trigger words is a case-insensitive substring of the message, in the order of
  the table; no name occurs twice; when no row is triggered nothing is appended.
\<close>

theorem processResponse_resources_by_trigger:
  "list_ex (\<lambda>kw. ci_substring kw originalMessage) resourceKeywords \<Longrightarrow>
   processResponse aiResponse originalMessage =
     warm_tone aiResponse @ aiResponse
     @ (if isSeekingSupport originalMessage then solidarity else [])
     @ (if triggered_resources originalMessage = [] then []
        else resourcesHeader @ join '', '' (triggered_resources originalMessage))
   \<and> distinct (triggered_resources originalMessage)"
  by (simp add: processResponse_parts uk_suffix_def needsUKResources_iff
      getRelevantUKResources_table distinct_triggered)

theorem processResponse_resources_by_trigger_witness:
  "list_ex (\<lambda>kw. ci_substring kw ''I need Help with housing and my job'') resourceKeywords
   \<and> triggered_resources ''I need Help with housing and my job''
       = [''Outside Project'', ''Shelter'', ''ACAS'', ''LGBT Foundation'']
   \<and> processResponse ''hello'' ''I need Help with housing and my job'' =
       warm_tone ''hello'' @ ''hello''
       @ (if isSeekingSupport ''I need Help with housing and my job'' then solidarity else [])
       @ (if triggered_resources ''I need Help with housing and my job'' = [] then []
          else resourcesHeader @ join '', '' (triggered_resources ''I need Help with housing and my job''))
   \<and> distinct (triggered_resources ''I need Help with housing and my job'')"
proof -
  have h: "list_ex (\<lambda>kw. ci_substring kw ''I need Help with housing and my job'') resourceKeywords"
    by code_simp
  have t: "triggered_resources ''I need Help with housing and my job''
       = [''Outside Project'', ''Shelter'', ''ACAS'', ''LGBT Foundation'']"
    by code_simp
  show ?thesis
    using processResponse_resources_by_trigger[OF h, of "''hello''"] h t by blast
qed

section \<open>Properties of the retry loop\<close>

lemma attempt_body_cases:
  "attempt_body api prompt k =
     (case successful_reply (api prompt k) of
        Some r \<Rightarrow> Inr (trim r)
      | None \<Rightarrow> Inl (case api prompt k of Throws e \<Rightarrow> e
                    | Content r \<Rightarrow> Error ''Empty response from GROQ API''))"
  by (simp add: attempt_body_def successful_reply_def split: completion.splits option.splits)

lemma message_of_failure:
  "message_of (Some (case c of Throws e \<Rightarrow> e | Content r \<Rightarrow> Error ''Empty response from GROQ API''))
     = failure_message c"
  by (simp add: failure_message_def message_of_def split: completion.splits)

lemma first_success_range:
  "first_success outcome k n = Some (j, r) \<Longrightarrow> k \<le> j \<and> j < k + n \<and> successful_reply (outcome j) = Some r"
proof (induction n arbitrary: k)
  case 0
  then show ?case by simp
next
  case (Suc n)
  then show ?case by (fastforce split: option.splits)
qed

lemma events_between_step:
  "k \<le> j \<Longrightarrow> events_between k j =
     (if k < j then [ApiCall k, Delay (retryDelay * k)] else [ApiCall k]) @ events_between (Suc k) j"
  by (simp add: events_between_def upt_rec[of k])

lemma events_between_empty: "j < k \<Longrightarrow> events_between k j = []"
  by (simp add: events_between_def)

lemma retry_loop_general:
  "k + n = Suc maxRetries \<Longrightarrow>
   retry_loop api prompt k lastError evs =
     (case first_success (api prompt) k n of
        Some (j, r) \<Rightarrow> (Inr (trim r), evs @ events_between k j)
      | None \<Rightarrow>
          (Inl (Error (''GROQ API failed after '' @ nat_to_string maxRetries @ '' attempts: ''
                  @ (if n = 0 then message_of lastError else failure_message (api prompt maxRetries)))),
           evs @ events_between k maxRetries))"
proof (induction n arbitrary: k lastError evs)
  case 0
  then have "\<not> k \<le> maxRetries" by simp
  then show ?case
    by (subst retry_loop.simps) (simp add: events_between_empty)
next
  case (Suc n)
  then have le: "k \<le> maxRetries" and rest: "Suc k + n = Suc maxRetries" by simp_all
  show ?case
  proof (cases "successful_reply (api prompt k)")
    case (Some r)
    then show ?thesis using le
      by (subst retry_loop.simps) (simp add: attempt_body_cases events_between_step events_between_empty)
  next
    case None
    have step: "retry_loop api prompt k lastError evs =
        retry_loop api prompt (Suc k)
          (Some (case api prompt k of Throws e \<Rightarrow> e | Content r \<Rightarrow> Error ''Empty response from GROQ API''))
          (evs @ [ApiCall k] @ (if k < maxRetries then [Delay (retryDelay * k)] else []))"
      using le None by (subst retry_loop.simps) (simp add: attempt_body_cases)
    show ?thesis
    proof (cases "first_success (api prompt) (Suc k) n")
      case fNone: None
      have last: "n = 0 \<Longrightarrow> k = maxRetries" using rest by simp
      show ?thesis
        unfolding step Suc.IH[OF rest]
        using None fNone le last
        by (auto simp: events_between_step[of k] message_of_failure)
    next
      case (Some p)
      obtain j r where p: "p = (j, r)" by (cases p)
      from first_success_range[OF Some[unfolded p]] have "Suc k \<le> j" "j < Suc k + n" by simp_all
      then show ?thesis
        unfolding step Suc.IH[OF rest]
        using None Some p le rest
        by (auto simp: events_between_step[of k])
    qed
  qed
qed

lemma generateResponse_cases:
  "generateResponse api prompt =
     (case first_success (api prompt) 1 maxRetries of
        Some (k, r) \<Rightarrow> (Inr (trim r), backoff_log k)
      | None \<Rightarrow>
          (Inl (Error (''GROQ API failed after '' @ nat_to_string maxRetries @ '' attempts: ''
                         @ failure_message (api prompt maxRetries))),
           backoff_log maxRetries))"
  unfolding generateResponse_def backoff_log_def
  by (subst retry_loop_general[where n = maxRetries])
     (auto simp: maxRetries_def split: option.splits)

lemma first_success_None:
  "(first_success outcome k n = None)
     = list_all (\<lambda>j. successful_reply (outcome j) = None) [k..<k + n]"
proof (induction n arbitrary: k)
  case 0
  show ?case by simp
next
  case (Suc n)
  have "[k..<k + Suc n] = k # [Suc k..<Suc k + n]" by (simp add: upt_rec)
  then show ?case using Suc[of "Suc k"] by (auto split: option.splits)
qed

lemma all_attempts_fail_iff:
  "all_attempts_fail api prompt = (first_success (api prompt) 1 maxRetries = None)"
  by (simp add: all_attempts_fail_def first_success_None)

text \<open>
  Claim C4, as the specification states it, fails in one point: the reply of the
  successful attempt is returned trimmed (\<open>response.trim()\<close>), not as it came.
\<close>

theorem generateResponse_trims_reply_counterexample:
  "generateResponse (\<lambda>prompt attempt. Content (Some '' OK '')) ''Hello'' = (Inr ''OK'', [ApiCall 1])
   \<and> Inr ''OK'' \<noteq> (Inr '' OK '' :: js_error + string)"
  by code_simp

text \<open>
  Claim C4, amended. \<open>generateResponse\<close> makes at most 3 attempts; an attempt that throws
  or yields an absent or empty reply has failed; between attempt \<open>k\<close> and attempt
  \<open>k + 1\<close> it waits \<open>retryDelay * k\<close>; at the first attempt that succeeds it returns
  the reply of that attempt trimmed, that is \<open>response.trim()\<close>, the reply without
  the white space at its two ends, and attempts no more; after the third failed attempt it fails with an error whose message carries
  the number of attempts and the message of the last error.
\<close>

theorem generateResponse_retry_policy:
  "maxRetries = 3
   \<and> generateResponse api prompt =
     (case first_success (api prompt) 1 maxRetries of
        Some (k, r) \<Rightarrow> (Inr (trim r), backoff_log k)
      | None \<Rightarrow>
          (Inl (Error (''GROQ API failed after 3 attempts: ''
                         @ failure_message (api prompt maxRetries))),
           backoff_log maxRetries))"
proof -
  have n: "nat_to_string maxRetries = ''3''" by code_simp
  have m: "maxRetries = 3" by (simp add: maxRetries_def)
  show ?thesis
    unfolding generateResponse_cases n using m by (auto split: option.splits)
qed

section \<open>Properties of the store\<close>

lemma find_append:
  "find P (xs @ ys) = (case find P xs of None \<Rightarrow> find P ys | Some x \<Rightarrow> Some x)"
  by (induction xs) auto

lemma find_fresh: "k \<notin> set (map f xs) \<Longrightarrow> find (\<lambda>x. f x = k) xs = None"
  by (induction xs) auto


lemma createConversation_cases:
  "createConversation gid now uid svc =
     (case svc of
        None \<Rightarrow> (Inl (Error ''Database not initialized. Call initialize() first.''), svc)
      | Some d \<Rightarrow>
          if gid \<in> set (map c_id (conversations d)) then (Inl (SQLITE_CONSTRAINT PRIMARYKEY), svc)
          else if (case or_null uid of None \<Rightarrow> False | Some u \<Rightarrow> u \<notin> set (users d))
            then (Inl (SQLITE_CONSTRAINT FOREIGNKEY), svc)
          else (Inr (Some \<lparr>c_id = gid, c_user_id = or_null uid, started_at = now,
                  last_message_at = now, c_context = JObj [], c_is_active = True\<rparr>),
                Some (d\<lparr>conversations := conversations d @
                   [\<lparr>c_id = gid, c_user_id = or_null uid, started_at = now,
                     last_message_at = now, c_context = JObj [], c_is_active = True\<rparr>]\<rparr>)))"
  by (auto simp: createConversation_def getDB_def insert_conversation_def find_append
      split: option.splits) (auto simp: find_fresh)

lemma addMessage_cases:
  "addMessage mid t t' cid r txt meta svc =
     (case svc of
        None \<Rightarrow> (Inl (Error ''Database not initialized. Call initialize() first.''), svc)
      | Some d \<Rightarrow>
          if mid \<in> set (map m_id (messages d)) then (Inl (SQLITE_CONSTRAINT PRIMARYKEY), svc)
          else if cid \<notin> set (map c_id (conversations d))
            then (Inl (SQLITE_CONSTRAINT FOREIGNKEY), svc)
          else (Inr (Some \<lparr>m_id = mid, conversation_id = cid, m_role = r, content = txt,
                  timestamp = t, rating = None, metadata = meta\<rparr>),
                Some (update_last_message_at cid t'
                  (d\<lparr>messages := messages d @
                     [\<lparr>m_id = mid, conversation_id = cid, m_role = r, content = txt,
                       timestamp = t, rating = None, metadata = meta\<rparr>]\<rparr>))))"
  by (auto simp: addMessage_def getDB_def insert_message_def update_last_message_at_def
      find_append Let_def split: option.splits) (auto simp: find_fresh)

lemma addFeedback_cases:
  "addFeedback fid now mid r txt uid svc =
     (case svc of
        None \<Rightarrow> (Inl (Error ''Database not initialized. Call initialize() first.''), svc)
      | Some d \<Rightarrow>
          if \<not> (1 \<le> r \<and> r \<le> 5) then (Inl (SQLITE_CONSTRAINT CHECK_FAILED), svc)
          else if fid \<in> set (map f_id (feedback d)) then (Inl (SQLITE_CONSTRAINT PRIMARYKEY), svc)
          else if mid \<notin> set (map m_id (messages d)) then (Inl (SQLITE_CONSTRAINT FOREIGNKEY), svc)
          else if (case or_null uid of None \<Rightarrow> False | Some u \<Rightarrow> u \<notin> set (users d))
            then (Inl (SQLITE_CONSTRAINT FOREIGNKEY), svc)
          else (Inr (),
                Some (update_rating mid r
                  (d\<lparr>feedback := feedback d @ [feedback_row fid now mid r txt uid]\<rparr>))))"
  by (auto simp: addFeedback_def getDB_def insert_feedback_def feedback_row_def split: option.splits)


lemma update_last_message_at_messages [simp]:
  "messages (update_last_message_at cid t d) = messages d"
  by (simp add: update_last_message_at_def)

lemma update_last_message_at_ids [simp]:
  "map c_id (conversations (update_last_message_at cid t d)) = map c_id (conversations d)"
  by (simp add: update_last_message_at_def comp_def)

lemma update_last_message_at_id_set [simp]:
  "c_id ` set (conversations (update_last_message_at cid t d)) = c_id ` set (conversations d)"
  using update_last_message_at_ids[of cid t d] by (metis set_map)

lemma update_rating_messages [simp]:
  "messages (update_rating mid r d) = map (set_rating mid r) (messages d)"
  by (simp add: update_rating_def set_rating_def)

lemma update_rating_conversations [simp]:
  "conversations (update_rating mid r d) = conversations d"
  by (simp add: update_rating_def)

lemma without_rating_set_rating [simp]: "without_rating (set_rating mid r m) = without_rating m"
  by (simp add: without_rating_def set_rating_def)

lemma conversation_id_set_rating [simp]: "conversation_id (set_rating mid r m) = conversation_id m"
  by (simp add: set_rating_def)

text \<open>One operation: what it makes of the table of messages.\<close>

lemma run_op_messages:
  "messages_of (run_op op svc) = messages_of svc
   \<or> (\<exists>row. messages_of (run_op op svc) = messages_of svc @ [row] \<and> \<not> is_feedback op)
   \<or> (\<exists>fid now mid r txt uid. op = AddFeedback fid now mid r txt uid
        \<and> messages_of (run_op op svc) = map (set_rating mid r) (messages_of svc))"
  by (cases op; cases svc)
     (auto simp: createConversation_cases addMessage_cases addFeedback_cases messages_of_def)

lemma run_op_without_rating:
  "prefix (map without_rating (messages_of svc)) (map without_rating (messages_of (run_op op svc)))"
  using run_op_messages[of op svc] by (auto simp: comp_def)

lemma run_op_initialised: "svc \<noteq> None \<Longrightarrow> run_op op svc \<noteq> None"
  by (cases op; cases svc)
     (auto simp: createConversation_cases addMessage_cases addFeedback_cases)

lemma run_op_no_feedback:
  "\<not> is_feedback op \<Longrightarrow> prefix (messages_of svc) (messages_of (run_op op svc))"
  using run_op_messages[of op svc] by auto

lemma fold_run_op_without_rating:
  "prefix (map without_rating (messages_of svc))
          (map without_rating (messages_of (fold run_op ops svc)))"
proof (induction ops arbitrary: svc)
  case Nil
  show ?case by simp
next
  case (Cons op ops)
  have "prefix (map without_rating (messages_of svc))
               (map without_rating (messages_of (run_op op svc)))"
    by (rule run_op_without_rating)
  also have "prefix \<dots> (map without_rating (messages_of (fold run_op ops (run_op op svc))))"
    by (rule Cons.IH)
  finally show ?case by simp
qed

lemma fold_run_op_no_feedback:
  "list_all (\<lambda>op. \<not> is_feedback op) ops \<Longrightarrow>
   prefix (messages_of svc) (messages_of (fold run_op ops svc))"
proof (induction ops arbitrary: svc)
  case Nil
  show ?case by simp
next
  case (Cons op ops)
  then have "prefix (messages_of svc) (messages_of (run_op op svc))"
    by (simp add: run_op_no_feedback)
  also have "prefix \<dots> (messages_of (fold run_op ops (run_op op svc)))"
    using Cons by simp
  finally show ?case by simp
qed

text \<open>The foreign key is an invariant.\<close>

lemma fk_ok_empty: "fk_ok empty_db"
  by (simp add: fk_ok_def empty_db_def)

lemma fk_ok_run_op:
  "svc = Some d \<Longrightarrow> fk_ok d \<Longrightarrow> \<exists>d'. run_op op svc = Some d' \<and> fk_ok d'"
  by (cases op)
     (auto simp: createConversation_cases addMessage_cases addFeedback_cases fk_ok_def
        list_all_iff)

text \<open>A series of appends with fresh identifiers on a conversation of the store.\<close>

lemma append_all_fresh:
  "conversationId \<in> set (map c_id (conversations d)) \<Longrightarrow>
   distinct (map generated_id appends) \<Longrightarrow>
   set (map generated_id appends) \<inter> set (map m_id (messages d)) = {} \<Longrightarrow>
   \<exists>d'. append_all conversationId appends (Some d)
          = (map (\<lambda>a. Inr (Some (appended_row conversationId a))) appends, Some d')
      \<and> messages d' = messages d @ map (appended_row conversationId) appends"
proof (induction appends arbitrary: d)
  case Nil
  show ?case by simp
next
  case (Cons a appends)
  let ?d1 = "update_last_message_at conversationId (clock2 a)
               (d\<lparr>messages := messages d @ [appended_row conversationId a]\<rparr>)"
  have step: "addMessage (generated_id a) (clock1 a) (clock2 a) conversationId
                (a_role a) (a_content a) (a_metadata a) (Some d)
              = (Inr (Some (appended_row conversationId a)), Some ?d1)"
    using Cons.prems by (auto simp: addMessage_cases appended_row_def)
  have "conversationId \<in> set (map c_id (conversations ?d1))"
    using Cons.prems(1) by simp
  moreover have "distinct (map generated_id appends)"
    using Cons.prems(2) by simp
  moreover have "set (map generated_id appends) \<inter> set (map m_id (messages ?d1)) = {}"
    using Cons.prems(2,3) by (auto simp: appended_row_def)
  ultimately obtain d' where
    "append_all conversationId appends (Some ?d1)
       = (map (\<lambda>a. Inr (Some (appended_row conversationId a))) appends, Some d')"
    "messages d' = messages ?d1 @ map (appended_row conversationId) appends"
    using Cons.IH[of ?d1] by blast
  then show ?case using step by simp
qed

lemma no_messages_of_new_conversation:
  "fk_ok d \<Longrightarrow> gid \<notin> set (map c_id (conversations d)) \<Longrightarrow>
   filter (\<lambda>m. conversation_id m = gid) (messages d) = []"
  by (auto simp: fk_ok_def list_all_iff filter_empty_conv)

lemma append_all_rows:
  "append_all conversationId appends (Some d) = (results, svc') \<Longrightarrow>
   \<exists>d'. svc' = Some d'
      \<and> messages d' = messages d @ inserted_rows results
      \<and> map c_id (conversations d') = map c_id (conversations d)
      \<and> list_all (\<lambda>row. conversation_id row = conversationId) (inserted_rows results)"
proof (induction appends arbitrary: d results svc')
  case Nil
  then show ?case by (auto simp: inserted_rows_def)
next
  case (Cons a appends)
  obtain r svc1 where
    step: "addMessage (generated_id a) (clock1 a) (clock2 a) conversationId
             (a_role a) (a_content a) (a_metadata a) (Some d) = (r, svc1)"
    by (cases "addMessage (generated_id a) (clock1 a) (clock2 a) conversationId
             (a_role a) (a_content a) (a_metadata a) (Some d)")
  then obtain d1 where d1: "svc1 = Some d1"
      and m1: "messages d1 = messages d @ inserted_rows [r]"
      and c1: "map c_id (conversations d1) = map c_id (conversations d)"
      and o1: "list_all (\<lambda>row. conversation_id row = conversationId) (inserted_rows [r])"
    by (auto simp: addMessage_cases inserted_rows_def split: if_splits)
  obtain rs svc2 where rest: "append_all conversationId appends (Some d1) = (rs, svc2)"
    by (cases "append_all conversationId appends (Some d1)")
  from Cons.prems step d1 rest have res: "results = r # rs" and svc: "svc' = svc2"
    by simp_all
  from Cons.IH[OF rest] obtain d' where
    "svc2 = Some d'" "messages d' = messages d1 @ inserted_rows rs"
    "map c_id (conversations d') = map c_id (conversations d1)"
    "list_all (\<lambda>row. conversation_id row = conversationId) (inserted_rows rs)"
    by blast
  then show ?case
    using m1 c1 o1 res svc by (simp add: inserted_rows_def)
qed

text \<open>
  Claim C5. \<open>addMessage\<close> on a conversation identifier that is not in the store fails
  with the constraint error of SQLite (the foreign key, unless the generated message
  identifier is taken, which fails first) and leaves the store as it was. For a
  conversation that \<open>createConversation\<close> has just created, after any series of
  \<open>addMessage\<close> calls \<open>getConversationMessages\<close> returns exactly the rows that the calls
  have inserted, ascending by timestamp; and when the generated identifiers are new,
  every call of the series inserts its row.
\<close>

theorem addMessage_getMessages_roundtrip:
  "(conversationId \<notin> set (map c_id (conversations d)) \<longrightarrow>
      addMessage messageId now now' conversationId r text meta (Some d)
        = (Inl (SQLITE_CONSTRAINT
                 (if messageId \<in> set (map m_id (messages d)) then PRIMARYKEY else FOREIGNKEY)),
           Some d))
   \<and> (fk_ok d
        \<and> createConversation newId t userId (Some d) = (Inr (Some conversation), svc)
        \<and> append_all (c_id conversation) appends svc = (results, svc') \<longrightarrow>
      (\<exists>ms. getConversationMessages (c_id conversation) svc' = Inr ms
        \<and> mset ms = mset (inserted_rows results)
        \<and> sorted (map timestamp ms))
      \<and> (distinct (map generated_id appends)
           \<and> set (map generated_id appends) \<inter> set (map m_id (messages d)) = {} \<longrightarrow>
         inserted_rows results = map (appended_row (c_id conversation)) appends))"
proof (intro conjI impI)
  assume "conversationId \<notin> set (map c_id (conversations d))"
  then show "addMessage messageId now now' conversationId r text meta (Some d)
        = (Inl (SQLITE_CONSTRAINT
                 (if messageId \<in> set (map m_id (messages d)) then PRIMARYKEY else FOREIGNKEY)),
           Some d)"
    by (simp add: addMessage_cases)
next
  assume a: "fk_ok d
        \<and> createConversation newId t userId (Some d) = (Inr (Some conversation), svc)
        \<and> append_all (c_id conversation) appends svc = (results, svc')"
  let ?row = "\<lparr>c_id = newId, c_user_id = or_null userId, started_at = t,
                  last_message_at = t, c_context = JObj [], c_is_active = True\<rparr>"
  let ?d1 = "d\<lparr>conversations := conversations d @ [?row]\<rparr>"
  from a have new: "newId \<notin> set (map c_id (conversations d))"
    and conv: "conversation = ?row" and svc: "svc = Some ?d1"
    by (auto simp: createConversation_cases split: if_splits)
  have cid: "c_id conversation = newId" using conv by simp
  from a have ap: "append_all newId appends (Some ?d1) = (results, svc')"
    by (simp add: cid svc)
  from append_all_rows[OF ap] obtain d' where d': "svc' = Some d'"
    and ms: "messages d' = messages d @ inserted_rows results"
    and mine: "list_all (\<lambda>row. conversation_id row = newId) (inserted_rows results)"
    by auto
  have old: "filter (\<lambda>m. conversation_id m = newId) (messages d) = []"
    using a new by (simp add: no_messages_of_new_conversation)
  have keep: "filter (\<lambda>m. conversation_id m = newId) (inserted_rows results) = inserted_rows results"
    using mine by (simp add: list_all_iff)
  have "getConversationMessages newId svc' = Inr (sort_key timestamp (inserted_rows results))"
    by (simp add: getConversationMessages_def getDB_def d' ms old keep)
  then show "\<exists>ms. getConversationMessages (c_id conversation) svc' = Inr ms
        \<and> mset ms = mset (inserted_rows results)
        \<and> sorted (map timestamp ms)"
    by (simp add: cid)
next
  assume a: "fk_ok d
        \<and> createConversation newId t userId (Some d) = (Inr (Some conversation), svc)
        \<and> append_all (c_id conversation) appends svc = (results, svc')"
  assume f: "distinct (map generated_id appends)
           \<and> set (map generated_id appends) \<inter> set (map m_id (messages d)) = {}"
  let ?row = "\<lparr>c_id = newId, c_user_id = or_null userId, started_at = t,
                  last_message_at = t, c_context = JObj [], c_is_active = True\<rparr>"
  let ?d1 = "d\<lparr>conversations := conversations d @ [?row]\<rparr>"
  from a have conv: "conversation = ?row" and svc: "svc = Some ?d1"
    by (auto simp: createConversation_cases split: if_splits)
  have cid: "c_id conversation = newId" using conv by simp
  have "newId \<in> set (map c_id (conversations ?d1))" by simp
  moreover have "set (map generated_id appends) \<inter> set (map m_id (messages ?d1)) = {}"
    using f by simp
  ultimately have "fst (append_all newId appends (Some ?d1))
      = map (\<lambda>a. Inr (Some (appended_row newId a))) appends"
    using append_all_fresh[of newId ?d1 appends] f by auto
  with a have "results = map (\<lambda>a. Inr (Some (appended_row newId a))) appends"
    by (simp add: cid svc)
  then show "inserted_rows results = map (appended_row (c_id conversation)) appends"
    by (simp add: cid inserted_rows_def comp_def)
qed

theorem addMessage_getMessages_roundtrip_witness:
  "''nope'' \<notin> set (map c_id (conversations empty_db))
   \<and> addMessage ''m1'' 5 5 ''nope'' User ''hello'' (JObj []) (Some empty_db)
       = (Inl (SQLITE_CONSTRAINT FOREIGNKEY), Some empty_db)
   \<and> fk_ok empty_db
   \<and> distinct (map generated_id two_appends)
   \<and> set (map generated_id two_appends) \<inter> set (map m_id (messages empty_db)) = {}
   \<and> (\<exists>conversation svc results svc' ms.
         createConversation ''c1'' 10 None (Some empty_db) = (Inr (Some conversation), svc)
       \<and> append_all (c_id conversation) two_appends svc = (results, svc')
       \<and> getConversationMessages (c_id conversation) svc' = Inr ms
       \<and> mset ms = mset (inserted_rows results)
       \<and> sorted (map timestamp ms)
       \<and> inserted_rows results = map (appended_row (c_id conversation)) two_appends)"
proof -
  obtain conversation svc where
    c: "createConversation ''c1'' 10 None (Some empty_db) = (Inr (Some conversation), svc)"
    by (simp add: createConversation_cases empty_db_def or_null_def)
  obtain results svc' where
    ap: "append_all (c_id conversation) two_appends svc = (results, svc')"
    by (cases "append_all (c_id conversation) two_appends svc")
  have d: "distinct (map generated_id two_appends)"
    by (simp add: two_appends_def)
  have i: "set (map generated_id two_appends) \<inter> set (map m_id (messages empty_db)) = {}"
    by (simp add: empty_db_def)
  have n: "''nope'' \<notin> set (map c_id (conversations empty_db))"
    by (simp add: empty_db_def)
  note t = addMessage_getMessages_roundtrip[of "''nope''" empty_db "''m1''" 5 5 User "''hello''"
      "JObj []" "''c1''" 10 None conversation svc two_appends results svc']
  from t n have f: "addMessage ''m1'' 5 5 ''nope'' User ''hello'' (JObj []) (Some empty_db)
       = (Inl (SQLITE_CONSTRAINT FOREIGNKEY), Some empty_db)"
    by (simp add: empty_db_def)
  from t fk_ok_empty c ap d i obtain ms where
    "getConversationMessages (c_id conversation) svc' = Inr ms"
    "mset ms = mset (inserted_rows results)"
    "sorted (map timestamp ms)"
    "inserted_rows results = map (appended_row (c_id conversation)) two_appends"
    by blast
  with fk_ok_empty n f c ap d i show ?thesis by blast
qed

text \<open>
  Claim C8, as the specification states it, fails in its second half: nothing limits
  the rating to one setting. Two feedbacks on the same message both succeed, and the
  second overwrites the rating the first has set.
\<close>

theorem rating_set_twice_counterexample:
  "map rating (messages_of (fold run_op
       [AddFeedback ''f1'' 20 ''m1'' 3 None None] one_message_db)) = [Some 3]
   \<and> map rating (messages_of (fold run_op
       [AddFeedback ''f1'' 20 ''m1'' 3 None None,
        AddFeedback ''f2'' 21 ''m1'' 5 None None] one_message_db)) = [Some 5]"
  by code_simp

text \<open>
  Claim C8, amended. Every field of a persisted message other than \<open>rating\<close> is
  unchanged by every subsequent store operation: the rows present stay, in their
  places, equal up to the rating, whatever sequence of operations follows. The rating
  is changed by \<open>addFeedback\<close> only, and every successful \<open>addFeedback\<close> sets the rating of
  the message it names to the rating given, whether or not one was set before.
\<close>

theorem message_fields_frame:
  "prefix (map without_rating (messages_of svc))
          (map without_rating (messages_of (fold run_op ops svc)))
   \<and> (list_all (\<lambda>op. \<not> is_feedback op) ops \<longrightarrow>
        prefix (messages_of svc) (messages_of (fold run_op ops svc)))
   \<and> (fst (addFeedback feedbackId now messageId r feedbackText userId svc) = Inr () \<longrightarrow>
        messages_of (snd (addFeedback feedbackId now messageId r feedbackText userId svc))
          = map (set_rating messageId r) (messages_of svc))"
proof (intro conjI impI)
  show "prefix (map without_rating (messages_of svc))
          (map without_rating (messages_of (fold run_op ops svc)))"
    by (rule fold_run_op_without_rating)
next
  assume "list_all (\<lambda>op. \<not> is_feedback op) ops"
  then show "prefix (messages_of svc) (messages_of (fold run_op ops svc))"
    by (rule fold_run_op_no_feedback)
next
  assume "fst (addFeedback feedbackId now messageId r feedbackText userId svc) = Inr ()"
  then show "messages_of (snd (addFeedback feedbackId now messageId r feedbackText userId svc))
          = map (set_rating messageId r) (messages_of svc)"
    by (cases svc) (auto simp: addFeedback_cases messages_of_def split: if_splits)
qed

theorem message_fields_frame_witness:
  "list_all (\<lambda>op. \<not> is_feedback op) [AddMessage ''m2'' 12 12 ''c1'' Assistant ''hi'' (JObj [])]
   \<and> fst (addFeedback ''f1'' 20 ''m1'' 4 None None one_message_db) = Inr ()
   \<and> prefix (map without_rating (messages_of one_message_db))
        (map without_rating (messages_of
           (fold run_op [AddMessage ''m2'' 12 12 ''c1'' Assistant ''hi'' (JObj [])] one_message_db)))
   \<and> prefix (messages_of one_message_db)
        (messages_of (fold run_op [AddMessage ''m2'' 12 12 ''c1'' Assistant ''hi'' (JObj [])]
           one_message_db))
   \<and> messages_of (snd (addFeedback ''f1'' 20 ''m1'' 4 None None one_message_db))
        = map (set_rating ''m1'' 4) (messages_of one_message_db)"
proof -
  have h1: "list_all (\<lambda>op. \<not> is_feedback op)
              [AddMessage ''m2'' 12 12 ''c1'' Assistant ''hi'' (JObj [])]"
    by simp
  have h2: "fst (addFeedback ''f1'' 20 ''m1'' 4 None None one_message_db) = Inr ()"
    by code_simp
  show ?thesis
    using message_fields_frame[of one_message_db
        "[AddMessage ''m2'' 12 12 ''c1'' Assistant ''hi'' (JObj [])]" "''f1''" 20 "''m1''" 4 None None]
      h1 h2
    by blast
qed

text \<open>
  Claim C10. When the insert into \<open>feedback\<close> fails, because the rating is outside 1 to
  5 or because the message identifier names no message, \<open>addFeedback\<close> raises the
  constraint error and the store, the rating of every message with it, is as it was.
  The rating is updated after a successful insert and only then: a call either fails
  with the error of the insert and changes nothing, or the insert has succeeded and
  the rating is updated in the database the insert has produced.
\<close>

theorem addFeedback_failed_insert_keeps_rating:
  "svc = Some d \<Longrightarrow>
   (\<not> (1 \<le> r \<and> r \<le> 5) \<or> messageId \<notin> set (map m_id (messages d)) \<longrightarrow>
      (\<exists>c. addFeedback feedbackId now messageId r feedbackText userId svc
             = (Inl (SQLITE_CONSTRAINT c), svc)))
   \<and> ((\<exists>e. insert_feedback (feedback_row feedbackId now messageId r feedbackText userId) d = Inl e
            \<and> addFeedback feedbackId now messageId r feedbackText userId svc = (Inl e, svc))
        \<or> (\<exists>d'. insert_feedback (feedback_row feedbackId now messageId r feedbackText userId) d = Inr d'
              \<and> addFeedback feedbackId now messageId r feedbackText userId svc
                  = (Inr (), Some (update_rating messageId r d'))))"
  by (auto simp: addFeedback_def getDB_def feedback_row_def insert_feedback_def
      split: sum.splits)

theorem addFeedback_failed_insert_keeps_rating_witness:
  "one_message_db = Some \<lparr>users = [],
       conversations = [\<lparr>c_id = ''c1'', c_user_id = None, started_at = 10, last_message_at = 11,
                          c_context = JObj [], c_is_active = True\<rparr>],
       messages = [\<lparr>m_id = ''m1'', conversation_id = ''c1'', m_role = User, content = ''hello'',
                     timestamp = 11, rating = None, metadata = JObj []\<rparr>],
       feedback = []\<rparr>
   \<and> addFeedback ''f1'' 20 ''m1'' 6 None None one_message_db
       = (Inl (SQLITE_CONSTRAINT CHECK_FAILED), one_message_db)
   \<and> addFeedback ''f1'' 20 ''m9'' 3 None None one_message_db
       = (Inl (SQLITE_CONSTRAINT FOREIGNKEY), one_message_db)"
proof -
  let ?d = "\<lparr>users = [],
       conversations = [\<lparr>c_id = ''c1'', c_user_id = None, started_at = 10, last_message_at = 11,
                          c_context = JObj [], c_is_active = True\<rparr>],
       messages = [\<lparr>m_id = ''m1'', conversation_id = ''c1'', m_role = User, content = ''hello'',
                     timestamp = 11, rating = None, metadata = JObj []\<rparr>],
       feedback = []\<rparr>"
  have s: "one_message_db = Some ?d"
    by code_simp
  have a: "\<exists>c. addFeedback ''f1'' 20 ''m1'' 6 None None one_message_db
             = (Inl (SQLITE_CONSTRAINT c), one_message_db)"
    using addFeedback_failed_insert_keeps_rating[OF s, of 6 "''m1''" "''f1''" 20 None None]
    by simp
  have b: "\<exists>c. addFeedback ''f1'' 20 ''m9'' 3 None None one_message_db
             = (Inl (SQLITE_CONSTRAINT c), one_message_db)"
    using addFeedback_failed_insert_keeps_rating[OF s, of 3 "''m9''" "''f1''" 20 None None]
    by simp
  have a': "fst (addFeedback ''f1'' 20 ''m1'' 6 None None one_message_db)
      = Inl (SQLITE_CONSTRAINT CHECK_FAILED)"
    by code_simp
  have b': "fst (addFeedback ''f1'' 20 ''m9'' 3 None None one_message_db)
      = Inl (SQLITE_CONSTRAINT FOREIGNKEY)"
    by code_simp
  from a a' b b' s show ?thesis by auto
qed

section \<open>Properties of the chat route\<close>

lemma validationResult_valid:
  "valid_request ok req \<Longrightarrow>
   \<exists>msg c u. validationResult ok req = Inr (msg, c, u) \<and> 1 \<le> length msg \<and> length msg \<le> 2000"
  by (auto simp: valid_request_def validationResult_def validate_message_def
      validate_optional_def Let_def split: option.splits json.splits)

lemma try_groq_cases:
  "try_groq addMsg api enhancedPrompt msg conversationId isoNow st =
     (case first_success (api enhancedPrompt) 1 maxRetries of
        None \<Rightarrow>
          (Inl (Error (''GROQ API failed after '' @ nat_to_string maxRetries @ '' attempts: ''
                         @ failure_message (api enhancedPrompt maxRetries))), st)
      | Some (k, r) \<Rightarrow>
          (case addMsg conversationId Assistant (processResponse (trim r) msg) groq_metadata st of
             (Inl e, st') \<Rightarrow> (Inl e, st')
           | (Inr x, st') \<Rightarrow>
               (Inr (groq_json (processResponse (trim r) msg) isoNow (JStr conversationId)), st')))"
  by (auto simp: try_groq_def generateResponse_cases Let_def split: option.splits)

lemma answers_in_json [simp]:
  "answers_in modes (groq_json r isoNow c) = (r \<noteq> [] \<and> ''groq'' \<in> set modes)"
  "answers_in modes (fallback_json r isoNow c) = (r \<noteq> [] \<and> ''fallback'' \<in> set modes)"
  "answers_in modes (emergency_json isoNow) = (''emergency'' \<in> set modes)"
  by (simp_all add: answers_in_def groq_json_def fallback_json_def emergency_json_def field_def
      emergencyResponse_def)

lemma try_groq_answers:
  "try_groq addMsg api enhancedPrompt msg conversationId isoNow st = (Inr res, st') \<Longrightarrow>
   answers_in [''groq'', ''fallback'', ''emergency''] res"
proof -
  assume a: "try_groq addMsg api enhancedPrompt msg conversationId isoNow st = (Inr res, st')"
  show ?thesis
  proof (cases "first_success (api enhancedPrompt) 1 maxRetries")
    case None
    with a show ?thesis by (simp add: try_groq_cases)
  next
    case (Some p)
    obtain k r where p: "p = (k, r)" by (cases p)
    obtain r' st'' where s: "addMsg conversationId Assistant (processResponse (trim r) msg) groq_metadata st = (r', st'')"
      by (cases "addMsg conversationId Assistant (processResponse (trim r) msg) groq_metadata st")
    from a Some p s show ?thesis
      by (cases r') (auto simp: try_groq_cases processResponse_nonempty)
  qed
qed

lemma chat_sqlite_post_answers:
  assumes "validationResult (\<lambda>s. True) req = Inr v"
  shows "answers_in [''groq'', ''fallback'', ''emergency'']
     (fst (chat_sqlite_post createConv addMsg api u isoNow req st))"
proof -
  obtain msg c uid where v: "v = (msg, c, uid)" by (cases v)
  obtain r1 st1 where r1: "resolve_conversation createConv c uid st = (r1, st1)"
    by (cases "resolve_conversation createConv c uid st")
  show ?thesis
  proof (cases r1)
    case (Inl e)
    then show ?thesis using assms v r1 by (simp add: chat_sqlite_post_def)
  next
    case (Inr cid)
    obtain r2 st2 where r2: "addMsg cid User msg (JObj []) st1 = (r2, st2)"
      by (cases "addMsg cid User msg (JObj []) st1")
    show ?thesis
    proof (cases r2)
      case (Inl e)
      then show ?thesis using assms v r1 Inr r2 by (simp add: chat_sqlite_post_def)
    next
      case user: (Inr x)
      obtain r3 st3 where r3: "try_groq addMsg api (enhancePrompt msg) msg cid isoNow st2 = (r3, st3)"
        by (cases "try_groq addMsg api (enhancePrompt msg) msg cid isoNow st2")
      show ?thesis
      proof (cases r3)
        case ok: (Inr res)
        have "answers_in [''groq'', ''fallback'', ''emergency''] res"
          by (rule try_groq_answers[OF r3[unfolded ok]])
        then show ?thesis using assms v r1 Inr r2 user r3 ok
          by (simp add: chat_sqlite_post_def)
      next
        case failed: (Inl e)
        obtain r4 st4 where
          r4: "addMsg cid Assistant (getFallbackResponse u msg) fallback_metadata st3 = (r4, st4)"
          by (cases "addMsg cid Assistant (getFallbackResponse u msg) fallback_metadata st3")
        show ?thesis using assms v r1 Inr r2 user r3 failed r4
          by (cases r4) (simp_all add: chat_sqlite_post_def getFallbackResponse_nonempty)
      qed
    qed
  qed
qed

lemma chat_post_answers:
  assumes "validationResult isUUID req = Inr v"
  shows "answers_in [''groq'', ''fallback'', ''emergency''] (chat_post isUUID api u isoNow req)"
proof -
  obtain msg c uid where v: "v = (msg, c, uid)" by (cases v)
  obtain r evs where g: "generateResponse api (enhancePrompt msg) = (r, evs)"
    by (cases "generateResponse api (enhancePrompt msg)")
  have "chat_post isUUID api u isoNow req =
     (case r of
        Inr aiResponse \<Rightarrow> groq_json (processResponse aiResponse msg) isoNow
           (case or_null c of None \<Rightarrow> JNull | Some c \<Rightarrow> JStr c)
      | Inl groqError \<Rightarrow> fallback_json (getFallbackResponse u msg) isoNow
           (case or_null c of None \<Rightarrow> JNull | Some c \<Rightarrow> JStr c))"
    unfolding chat_post_def assms v Let_def by (simp add: g)
  then show ?thesis
    by (cases r) (simp_all add: processResponse_nonempty getFallbackResponse_nonempty)
qed

lemma world_addMessage_ok:
  assumes "service w = Some d" "cid \<in> set (map c_id (conversations d))"
    "generated_id (env (calls w)) \<notin> set (map m_id (messages d))"
  shows "\<exists>x d'. world_addMessage env cid r txt meta w
           = (Inr x, \<lparr>service = Some d', calls = Suc (calls w)\<rparr>)
         \<and> messages d' = messages d @
              [\<lparr>m_id = generated_id (env (calls w)), conversation_id = cid, m_role = r,
                content = txt, timestamp = clock1 (env (calls w)), rating = None,
                metadata = meta\<rparr>]
         \<and> map c_id (conversations d') = map c_id (conversations d)"
  using assms by (simp add: world_addMessage_def addMessage_cases Let_def)

lemma resolve_conversation_ok:
  assumes "store_accepts env c u w"
  shows "\<exists>cid d d1 n1. service w = Some d
      \<and> resolve_conversation (world_createConversation env) c u w
           = (Inr cid, \<lparr>service = Some d1, calls = n1\<rparr>)
      \<and> cid \<in> set (map c_id (conversations d1)) \<and> messages d1 = messages d
      \<and> fresh_messages env n1 d1"
proof -
  from assms obtain d where d: "service w = Some d"
    by (auto simp: store_accepts_def split: option.splits)
  show ?thesis
  proof (cases "or_null c")
    case (Some cid)
    with assms d have "cid \<in> set (map c_id (conversations d))" "fresh_messages env (calls w) d"
      by (auto simp: store_accepts_def)
    moreover have "resolve_conversation (world_createConversation env) c u w
        = (Inr cid, \<lparr>service = Some d, calls = calls w\<rparr>)"
      using Some d by (simp add: resolve_conversation_def)
    ultimately show ?thesis using d by blast
  next
    case None
    let ?row = "\<lparr>c_id = generated_id (env (calls w)), c_user_id = or_null u,
                 started_at = clock1 (env (calls w)), last_message_at = clock1 (env (calls w)),
                 c_context = JObj [], c_is_active = True\<rparr>"
    let ?d1 = "d\<lparr>conversations := conversations d @ [?row]\<rparr>"
    from assms d None have
      a: "generated_id (env (calls w)) \<notin> set (map c_id (conversations d))"
         "(case or_null u of None \<Rightarrow> True | Some x \<Rightarrow> x \<in> set (users d))"
         "fresh_messages env (Suc (calls w)) d"
      by (auto simp: store_accepts_def)
    then have "createConversation (generated_id (env (calls w))) (clock1 (env (calls w))) u (Some d)
        = (Inr (Some ?row), Some ?d1)"
      by (auto simp: createConversation_cases split: option.splits)
    then have "resolve_conversation (world_createConversation env) c u w
        = (Inr (generated_id (env (calls w))), \<lparr>service = Some ?d1, calls = Suc (calls w)\<rparr>)"
      using None d by (simp add: resolve_conversation_def world_createConversation_def Let_def)
    moreover have "fresh_messages env (Suc (calls w)) ?d1"
      using a(3) by (simp add: fresh_messages_def)
    moreover have "generated_id (env (calls w)) \<in> set (map c_id (conversations ?d1))"
      by simp
    ultimately show ?thesis using d by (intro exI[of _ "generated_id (env (calls w))"] exI[of _ d] exI[of _ ?d1] exI[of _ "Suc (calls w)"]) simp
  qed
qed

lemma last_message_appended:
  "messages d = ms @ [row] \<Longrightarrow> last_message \<lparr>service = Some d, calls = n\<rparr> = Some row"
  by (simp add: last_message_def)

lemma field_mode_json [simp]:
  "field ''mode'' (body (groq_json r isoNow c)) = Some (JStr ''groq'')"
  "field ''mode'' (body (fallback_json r isoNow c)) = Some (JStr ''fallback'')"
  "field ''response'' (body (groq_json r isoNow c)) = Some (JStr r)"
  "field ''response'' (body (fallback_json r isoNow c)) = Some (JStr r)"
  by (simp_all add: groq_json_def fallback_json_def field_def)

text \<open>
  Claim C1, as the specification states it, fails in the name of one mode: the answer
  made from the provider's reply carries the mode \<open>groq\<close>, not \<open>provider\<close>.
\<close>

theorem mode_groq_counterexample:
  "valid_request (\<lambda>s. True) housing_request
   \<and> field ''mode'' (body (fst (chat_route count_env api_up random_zero
         ''2025-01-15T18:00:00.000Z'' housing_request fresh_world))) = Some (JStr ''groq'')
   \<and> \<not> answers_in [''provider'', ''fallback'', ''emergency'']
         (fst (chat_route count_env api_up random_zero
            ''2025-01-15T18:00:00.000Z'' housing_request fresh_world))"
  by code_simp

text \<open>
  Claim C1, amended. For every valid chat request, whatever the provider's calls and
  the store's operations do, the handler answers with a body whose \<open>mode\<close> is one of
  \<open>groq\<close>, \<open>fallback\<close>, \<open>emergency\<close> and whose \<open>response\<close> is a non-empty string. The
  store operations are arbitrary functions here; the second half is the handler of
  \<open>chat.routes.ts\<close>.
\<close>

theorem chat_always_answers:
  "(valid_request (\<lambda>s. True) req \<longrightarrow>
      answers_in [''groq'', ''fallback'', ''emergency'']
        (fst (chat_sqlite_post createConv addMsg api u isoNow req st)))
   \<and> (valid_request isUUID req \<longrightarrow>
      answers_in [''groq'', ''fallback'', ''emergency''] (chat_post isUUID api u isoNow req))"
proof (intro conjI impI)
  assume "valid_request (\<lambda>s. True) req"
  then obtain v where "validationResult (\<lambda>s. True) req = Inr v"
    using validationResult_valid by blast
  then show "answers_in [''groq'', ''fallback'', ''emergency'']
        (fst (chat_sqlite_post createConv addMsg api u isoNow req st))"
    by (rule chat_sqlite_post_answers)
next
  assume "valid_request isUUID req"
  then obtain v where "validationResult isUUID req = Inr v"
    using validationResult_valid by blast
  then show "answers_in [''groq'', ''fallback'', ''emergency''] (chat_post isUUID api u isoNow req)"
    by (rule chat_post_answers)
qed

theorem chat_always_answers_witness:
  "valid_request (\<lambda>s. True) housing_request
   \<and> answers_in [''groq'', ''fallback'', ''emergency'']
        (fst (chat_sqlite_post (world_createConversation count_env) (world_addMessage count_env)
                api_down random_zero ''2025-01-15T18:00:00.000Z'' housing_request fresh_world))
   \<and> answers_in [''groq'', ''fallback'', ''emergency'']
        (chat_post (\<lambda>s. True) api_down random_zero ''2025-01-15T18:00:00.000Z'' housing_request)"
proof -
  have h: "valid_request (\<lambda>s. True) housing_request"
    by code_simp
  show ?thesis
    using chat_always_answers[of housing_request "world_createConversation count_env"
        "world_addMessage count_env" api_down random_zero "''2025-01-15T18:00:00.000Z''"
        fresh_world "\<lambda>s. True"] h
    by blast
qed

text \<open>
  Claim C2, as the specification states it, fails. With all 3 attempts failing and the
  store accepting every write, the metadata persisted has the fallback reason
  \<open>groq_api_unavailable\<close> and the source \<open>qtipoc_local_knowledge\<close>, not
  \<open>provider_unavailable\<close> and \<open>local_knowledge\<close>. And a successful attempt does not
  decide the mode when a store write fails: if the store rejects the assistant message
  (here the generated identifier is taken), the error is caught by the \<open>catch\<close> meant
  for the provider, and the answer has the mode \<open>fallback\<close>.
\<close>

theorem fallback_reason_and_store_failure_counterexample:
  "valid_request (\<lambda>s. True) housing_request
   \<and> all_attempts_fail api_down (enhancePrompt ''I need housing help'')
   \<and> field ''mode'' (body (fst (chat_route count_env api_down random_zero
         ''2025-01-15T18:00:00.000Z'' housing_request fresh_world))) = Some (JStr ''fallback'')
   \<and> map_option metadata (last_message (snd (chat_route count_env api_down random_zero
         ''2025-01-15T18:00:00.000Z'' housing_request fresh_world)))
       = Some (JObj [(''model'', JStr ''ivor_community_knowledge''),
                     (''source'', JStr ''qtipoc_local_knowledge''),
                     (''confidence'', JNum 0.85),
                     (''fallback_reason'', JStr ''groq_api_unavailable'')])
   \<and> \<not> all_attempts_fail api_up (enhancePrompt ''I need housing help'')
   \<and> field ''mode'' (body (fst (chat_route clash_env api_up random_zero
         ''2025-01-15T18:00:00.000Z'' housing_request fresh_world))) = Some (JStr ''fallback'')"
  by code_simp

text \<open>
  Claim C2, amended. For every valid chat request of which the store accepts every
  write: if all 3 attempts of the provider fail, the answer has the mode \<open>fallback\<close>,
  and the assistant message persisted last has the fallback response as content and
  the metadata with model \<open>ivor_community_knowledge\<close>, source \<open>qtipoc_local_knowledge\<close>,
  confidence 0.85 and fallback reason \<open>groq_api_unavailable\<close>; if one of the 3 attempts
  succeeds, the answer has the mode \<open>groq\<close> and the assistant message persisted last
  has the response as content and the metadata of the provider.
\<close>

theorem chat_route_modes:
  assumes valid: "validationResult (\<lambda>s. True) req = Inr (msg, c, uid)"
    and store: "store_accepts env c uid w"
  shows "(if all_attempts_fail api (enhancePrompt msg)
          then field ''mode'' (body (fst (chat_route env api u isoNow req w))) = Some (JStr ''fallback'')
             \<and> (\<exists>row. last_message (snd (chat_route env api u isoNow req w)) = Some row
                  \<and> m_role row = Assistant
                  \<and> content row = getFallbackResponse u msg
                  \<and> field ''response'' (body (fst (chat_route env api u isoNow req w)))
                      = Some (JStr (content row))
                  \<and> metadata row = fallback_metadata)
          else field ''mode'' (body (fst (chat_route env api u isoNow req w))) = Some (JStr ''groq'')
             \<and> (\<exists>row. last_message (snd (chat_route env api u isoNow req w)) = Some row
                  \<and> m_role row = Assistant
                  \<and> field ''response'' (body (fst (chat_route env api u isoNow req w)))
                      = Some (JStr (content row))
                  \<and> metadata row = groq_metadata))
     \<and> field ''fallback_reason'' fallback_metadata = Some (JStr ''groq_api_unavailable'')
     \<and> field ''source'' fallback_metadata = Some (JStr ''qtipoc_local_knowledge'')
     \<and> field ''model'' fallback_metadata = Some (JStr ''ivor_community_knowledge'')
     \<and> field ''confidence'' fallback_metadata = Some (JNum 0.85)"
proof -
  from resolve_conversation_ok[OF store] obtain cid d d1 n1 where
    r1: "resolve_conversation (world_createConversation env) c uid w
           = (Inr cid, \<lparr>service = Some d1, calls = n1\<rparr>)"
    and c1: "cid \<in> set (map c_id (conversations d1))"
    and f1: "fresh_messages env n1 d1"
    by blast
  let ?w1 = "\<lparr>service = Some d1, calls = n1\<rparr>"
  from f1 have fresh: "generated_id (env n1) \<notin> set (map m_id (messages d1))"
      "generated_id (env (Suc n1)) \<notin> set (map m_id (messages d1))"
      "generated_id (env n1) \<noteq> generated_id (env (Suc n1))"
    by (simp_all add: fresh_messages_def)
  from world_addMessage_ok[of ?w1 d1 cid env User msg "JObj []"] c1 fresh(1)
  obtain x2 d2 where
    r2: "world_addMessage env cid User msg (JObj []) ?w1
           = (Inr x2, \<lparr>service = Some d2, calls = Suc n1\<rparr>)"
    and m2: "messages d2 = messages d1 @
              [\<lparr>m_id = generated_id (env n1), conversation_id = cid, m_role = User,
                content = msg, timestamp = clock1 (env n1), rating = None, metadata = JObj []\<rparr>]"
    and c2: "map c_id (conversations d2) = map c_id (conversations d1)"
    by auto
  let ?w2 = "\<lparr>service = Some d2, calls = Suc n1\<rparr>"
  have fresh2: "generated_id (env (calls ?w2)) \<notin> set (map m_id (messages d2))"
    using fresh m2 by auto
  have c2': "cid \<in> set (map c_id (conversations d2))"
    using c1 c2 by simp
  have meta: "field ''fallback_reason'' fallback_metadata = Some (JStr ''groq_api_unavailable'')
     \<and> field ''source'' fallback_metadata = Some (JStr ''qtipoc_local_knowledge'')
     \<and> field ''model'' fallback_metadata = Some (JStr ''ivor_community_knowledge'')
     \<and> field ''confidence'' fallback_metadata = Some (JNum 0.85)"
    by (simp add: fallback_metadata_def field_def)
  have unfold: "chat_route env api u isoNow req w =
      (case try_groq (world_addMessage env) api (enhancePrompt msg) msg cid isoNow ?w2 of
         (Inr response, st3) \<Rightarrow> (response, st3)
       | (Inl groqError, st3) \<Rightarrow>
           (case world_addMessage env cid Assistant (getFallbackResponse u msg) fallback_metadata st3 of
              (Inl e, st4) \<Rightarrow> (emergency_json isoNow, st4)
            | (Inr x, st4) \<Rightarrow>
                (fallback_json (getFallbackResponse u msg) isoNow (JStr cid), st4)))"
    unfolding chat_route_def chat_sqlite_post_def Let_def by (simp add: valid r1 r2)
  show ?thesis
  proof (cases "first_success (api (enhancePrompt msg)) 1 maxRetries")
    case None
    then have fail: "all_attempts_fail api (enhancePrompt msg)"
      by (simp add: all_attempts_fail_iff)
    from world_addMessage_ok[of ?w2 d2 cid env Assistant "getFallbackResponse u msg" fallback_metadata]
      c2' fresh2
    obtain x3 d3 where
      r3: "world_addMessage env cid Assistant (getFallbackResponse u msg) fallback_metadata ?w2
             = (Inr x3, \<lparr>service = Some d3, calls = Suc (Suc n1)\<rparr>)"
      and m3: "messages d3 = messages d2 @
              [\<lparr>m_id = generated_id (env (Suc n1)), conversation_id = cid, m_role = Assistant,
                content = getFallbackResponse u msg, timestamp = clock1 (env (Suc n1)),
                rating = None, metadata = fallback_metadata\<rparr>]"
      by auto
    have res: "chat_route env api u isoNow req w =
        (fallback_json (getFallbackResponse u msg) isoNow (JStr cid),
         \<lparr>service = Some d3, calls = Suc (Suc n1)\<rparr>)"
      unfolding unfold try_groq_cases None by (simp add: r3)
    show ?thesis
      using fail meta by (simp add: res last_message_appended[OF m3])
  next
    case (Some p)
    obtain k r where p: "p = (k, r)" by (cases p)
    from Some have ok: "\<not> all_attempts_fail api (enhancePrompt msg)"
      by (simp add: all_attempts_fail_iff)
    from world_addMessage_ok[of ?w2 d2 cid env Assistant "processResponse (trim r) msg" groq_metadata]
      c2' fresh2
    obtain x3 d3 where
      r3: "world_addMessage env cid Assistant (processResponse (trim r) msg) groq_metadata ?w2
             = (Inr x3, \<lparr>service = Some d3, calls = Suc (Suc n1)\<rparr>)"
      and m3: "messages d3 = messages d2 @
              [\<lparr>m_id = generated_id (env (Suc n1)), conversation_id = cid, m_role = Assistant,
                content = processResponse (trim r) msg, timestamp = clock1 (env (Suc n1)),
                rating = None, metadata = groq_metadata\<rparr>]"
      by auto
    have res: "chat_route env api u isoNow req w =
        (groq_json (processResponse (trim r) msg) isoNow (JStr cid),
         \<lparr>service = Some d3, calls = Suc (Suc n1)\<rparr>)"
      unfolding unfold try_groq_cases Some p by (simp add: r3)
    show ?thesis
      using ok meta by (simp add: res last_message_appended[OF m3])
  qed
qed

theorem chat_route_modes_witness:
  "validationResult (\<lambda>s. True) housing_request = Inr (''I need housing help'', None, None)
   \<and> store_accepts count_env None None fresh_world
   \<and> all_attempts_fail api_down (enhancePrompt ''I need housing help'')
   \<and> field ''mode'' (body (fst (chat_route count_env api_down random_zero
         ''2025-01-15T18:00:00.000Z'' housing_request fresh_world))) = Some (JStr ''fallback'')
   \<and> (\<exists>row. last_message (snd (chat_route count_env api_down random_zero
                 ''2025-01-15T18:00:00.000Z'' housing_request fresh_world)) = Some row
          \<and> m_role row = Assistant
          \<and> content row = getFallbackResponse random_zero ''I need housing help''
          \<and> metadata row = fallback_metadata)"
proof -
  have h1: "validationResult (\<lambda>s. True) housing_request
      = Inr (''I need housing help'', None, None)"
    by code_simp
  have h2: "store_accepts count_env None None fresh_world"
    by code_simp
  have h3: "all_attempts_fail api_down (enhancePrompt ''I need housing help'')"
    by code_simp
  show ?thesis
    using chat_route_modes[OF h1 h2, of api_down random_zero "''2025-01-15T18:00:00.000Z''"]
      h1 h2 h3
    by auto
qed

end
